theory Spec2Isabelle
  imports Complex_Main "HOL-Library.Multiset"
begin

section \<open>Python values, failures and the ambient environment\<close>

text \<open>
  The repository is Python. Its floats are modelled as \<^typ>\<open>real\<close>: comparisons against
  thresholds and the arithmetic of the formulas are those of the source, without rounding
  error, NaN or infinity. An exception is a value \<open>Inl e\<close> of the sum type
  \<open>py_error + 'a\<close>; a normal return is \<open>Inr v\<close>.
\<close>

datatype py_error = KeyError | ZeroDivisionError | TypeError | ValueError

text \<open>
  \<^verbatim>\<open>round(x, 1)\<close>: Python rounds to the nearest value with one decimal, a tie going to
  the even neighbour.
\<close>

definition py_round :: "real \<Rightarrow> int" where
  "py_round x =
     (let f = \<lfloor>x\<rfloor>; d = x - of_int f
      in if d < 1 / 2 then f else if 1 / 2 < d then f + 1
         else if even f then f else f + 1)"

definition round1 :: "real \<Rightarrow> real" where
  "round1 x = of_int (py_round (x * 10)) / 10"

text \<open>
  The module-level generator of \<^verbatim>\<open>random\<close> is process-wide state. Its state is
  modelled by the sequence of values that \<^verbatim>\<open>random.random()\<close> will return from now
  on: seeding fixes the sequence, a draw returns its head and leaves its tail.
\<close>

type_synonym rng = "nat \<Rightarrow> real"

definition random_random :: "rng \<Rightarrow> real \<times> rng" where
  "random_random g = (g 0, \<lambda>n. g (Suc n))"

text \<open>The state of the generator after \<open>k\<close> further draws.\<close>

definition advance :: "nat \<Rightarrow> rng \<Rightarrow> rng" where
  "advance k g = (\<lambda>n. g (n + k))"

text \<open>
  A \<^verbatim>\<open>datetime\<close> is modelled by its calendar day, the proleptic Gregorian ordinal of
  \<^verbatim>\<open>date.toordinal()\<close> (day 1 is 0001-01-01); \<^verbatim>\<open>timedelta(days=k)\<close> adds \<open>k\<close>.
  \<^verbatim>\<open>datetime.now()\<close> is the parameter \<open>today\<close> of every operation that reads the
  clock. \<open>ymd_of\<close> is the calendar: year, month and day of the month of an ordinal.
  The ordinals are unbounded: the \<^verbatim>\<open>OverflowError\<close> of \<^verbatim>\<open>datetime\<close> outside the years
  1 to 9999 is not modelled.
\<close>

type_synonym date = int

definition ymd_of :: "date \<Rightarrow> int \<times> nat \<times> nat" where
  "ymd_of n =
     (let z = n + 305;
          era = z div 146097;
          doe = z - era * 146097;
          yoe = (doe - doe div 1460 + doe div 36524 - doe div 146096) div 365;
          doy = doe - (365 * yoe + yoe div 4 - yoe div 100);
          mp = (5 * doy + 2) div 153;
          d = doy - (153 * mp + 2) div 5 + 1;
          m = (if mp < 10 then mp + 3 else mp - 9);
          y = yoe + era * 400 + (if m \<le> 2 then 1 else 0)
      in (y, nat m, nat d))"

definition month_of :: "date \<Rightarrow> nat" where
  "month_of n = fst (snd (ymd_of n))"

subsection \<open>Text\<close>

text \<open>
  What the f-strings of the source interpolate: \<^verbatim>\<open>str\<close> of an integer,
  \<^verbatim>\<open>strftime("%Y-%m-%d")\<close> of a date and \<^verbatim>\<open>str.capitalize\<close> on ASCII letters.
\<close>

fun str_nat :: "nat \<Rightarrow> string" where
  "str_nat n =
     (if n < 10 then [''0123456789'' ! n]
      else str_nat (n div 10) @ [''0123456789'' ! (n mod 10)])"

declare str_nat.simps [simp del]

definition str_int :: "int \<Rightarrow> string" where
  "str_int i = (if i < 0 then ''-'' @ str_nat (nat (- i)) else str_nat (nat i))"

definition zfill :: "nat \<Rightarrow> string \<Rightarrow> string" where
  "zfill k s = replicate (k - length s) CHR ''0'' @ s"

definition strftime :: "date \<Rightarrow> string" where
  "strftime d =
     (case ymd_of d of (y, m, dd) \<Rightarrow>
        zfill 4 (str_nat (nat y)) @ ''-'' @ zfill 2 (str_nat m) @ ''-'' @ zfill 2 (str_nat dd))"

definition upper :: "char \<Rightarrow> char" where
  "upper c = (case map_of (zip ''abcdefghijklmnopqrstuvwxyz'' ''ABCDEFGHIJKLMNOPQRSTUVWXYZ'') c of
                Some u \<Rightarrow> u | None \<Rightarrow> c)"

definition lower :: "char \<Rightarrow> char" where
  "lower c = (case map_of (zip ''ABCDEFGHIJKLMNOPQRSTUVWXYZ'' ''abcdefghijklmnopqrstuvwxyz'') c of
                Some l \<Rightarrow> l | None \<Rightarrow> c)"

fun capitalize :: "string \<Rightarrow> string" where
  "capitalize [] = []"
| "capitalize (c # cs) = upper c # map lower cs"

section \<open>agents/weather\_station.py\<close>

subsection \<open>Data\<close>

text \<open>
  The closed sets of strings of the source are datatypes: the season keys
  \<^verbatim>\<open>"spring"\<close>, \<^verbatim>\<open>"summer"\<close>, \<^verbatim>\<open>"fall"\<close>, \<^verbatim>\<open>"winter"\<close>, and the condition tags
  \<^verbatim>\<open>"Heavy Rain"\<close>, \<^verbatim>\<open>"Light Rain"\<close>, \<^verbatim>\<open>"Hot"\<close>, \<^verbatim>\<open>"Cold"\<close>, \<^verbatim>\<open>"Clear"\<close>,
  \<^verbatim>\<open>"Drought Conditions"\<close>, \<^verbatim>\<open>"Flood Warning"\<close>.
\<close>

datatype season = Spring | Summer | Fall | Winter

datatype condition =
  HeavyRain | LightRain | Hot | Cold | Clear | DroughtConditions | FloodWarning

record region_params =
  base_temp :: real
  temp_variation :: real
  base_rainfall :: real
  rainfall_variation :: real
  seasonal_factor :: real
  drought_probability :: real
  flood_probability :: real

record season_params =
  temp_modifier :: real
  rainfall_modifier :: real
  humidity_modifier :: real
  monthly_range :: "nat list"

text \<open>The dictionaries that share keys are records that extend one another.\<close>

record weather_obs =
  season :: season
  rainfall_mm :: real
  humidity_percent :: real
  wind_speed_kph :: real
  condition :: condition

record current_weather = weather_obs +
  timestamp :: date
  temperature_c :: real

record daily_sample = weather_obs +
  date :: date
  temperature_high_c :: real
  temperature_low_c :: real

record forecast_sample = daily_sample +
  day :: int

subsection \<open>generate\_weather\_patterns\<close>

definition regions :: "string \<rightharpoonup> region_params" where
  "regions =
     [''north'' \<mapsto>
        \<lparr>base_temp = 15, temp_variation = 8, base_rainfall = 5, rainfall_variation = 15,
         seasonal_factor = 0.8, drought_probability = 0.05, flood_probability = 0.05\<rparr>,
      ''central'' \<mapsto>
        \<lparr>base_temp = 22, temp_variation = 6, base_rainfall = 3, rainfall_variation = 10,
         seasonal_factor = 0.6, drought_probability = 0.08, flood_probability = 0.03\<rparr>,
      ''south'' \<mapsto>
        \<lparr>base_temp = 28, temp_variation = 5, base_rainfall = 2, rainfall_variation = 8,
         seasonal_factor = 0.5, drought_probability = 0.12, flood_probability = 0.02\<rparr>]"

fun seasons :: "season \<Rightarrow> season_params" where
  "seasons Spring =
     \<lparr>temp_modifier = 0, rainfall_modifier = 1.2, humidity_modifier = 1.1,
      monthly_range = [3, 4, 5]\<rparr>"
| "seasons Summer =
     \<lparr>temp_modifier = 1.2, rainfall_modifier = 0.8, humidity_modifier = 0.9,
      monthly_range = [6, 7, 8]\<rparr>"
| "seasons Fall =
     \<lparr>temp_modifier = 0, rainfall_modifier = 1.0, humidity_modifier = 1.0,
      monthly_range = [9, 10, 11]\<rparr>"
| "seasons Winter =
     \<lparr>temp_modifier = - 1.2, rainfall_modifier = 1.1, humidity_modifier = 1.2,
      monthly_range = [12, 1, 2]\<rparr>"

text \<open>The keys of \<^verbatim>\<open>self.seasons\<close> in insertion order, as the loop visits them.\<close>

definition season_keys :: "season list" where
  "season_keys = [Spring, Summer, Fall, Winter]"

subsection \<open>get\_current\_season\<close>

definition get_current_season :: "date \<Rightarrow> season" where
  "get_current_season d =
     (case find (\<lambda>s. month_of d \<in> set (monthly_range (seasons s))) season_keys of
        Some s \<Rightarrow> s
      | None \<Rightarrow> Spring)"

subsection \<open>The condition ladder\<close>

text \<open>
  The five-way ladder is written out three times in the source, with the same tests in the
  same order: in \<^verbatim>\<open>generate_current_weather\<close>, in the \<^verbatim>\<open>else\<close> branch of
  \<^verbatim>\<open>generate_forecast\<close> and in \<^verbatim>\<open>generate_historical_data\<close>.
\<close>

definition weather_condition :: "region_params \<Rightarrow> real \<Rightarrow> real \<Rightarrow> condition" where
  "weather_condition params rainfall temperature =
     (if rainfall > rainfall_variation params then HeavyRain
      else if rainfall > rainfall_variation params / 2 then LightRain
      else if temperature > base_temp params + temp_variation params then Hot
      else if temperature < base_temp params - temp_variation params then Cold
      else Clear)"

subsection \<open>generate\_current\_weather\<close>

definition generate_current_weather ::
  "date \<Rightarrow> rng \<Rightarrow> string \<Rightarrow> py_error + (current_weather \<times> rng)" where
  "generate_current_weather today g region =
     (case regions region of
        None \<Rightarrow> Inl KeyError
      | Some params \<Rightarrow>
          (let current_season = get_current_season today;
               season_params = seasons current_season;
               temp_base = base_temp params + temp_modifier season_params * seasonal_factor params;
               (u1, g1) = random_random g;
               temp_var = temp_variation params * (0.8 + 0.4 * u1);
               (u2, g2) = random_random g1;
               temperature = temp_base + (u2 * 2 - 1) * temp_var;
               rainfall_base = base_rainfall params * rainfall_modifier season_params;
               (u3, g3) = random_random g2;
               rainfall0 = u3 * rainfall_variation params * rainfall_base;
               (u4, g4) = random_random g3;
               rainfall = (if u4 < 0.6 then rainfall0 * 0.3 else rainfall0);
               humidity_base = 60 + 20 * humidity_modifier season_params;
               (u5, g5) = random_random g4;
               humidity = humidity_base + (u5 * 20 - 10);
               (u6, g6) = random_random g5;
               wind_speed = 5 + u6 * 15
           in Inr (\<lparr>season = current_season,
                     rainfall_mm = round1 rainfall,
                     humidity_percent = round1 humidity,
                     wind_speed_kph = round1 wind_speed,
                     condition = weather_condition params rainfall temperature,
                     timestamp = today,
                     temperature_c = round1 temperature\<rparr>, g6)))"

subsection \<open>generate\_forecast\<close>

text \<open>
  The body of the loop, in the three parts the source marks with its comments. The first
  updates the two trends and derives the day's temperature and rainfall; it returns the
  locals \<open>(temp_trend, temp_variation, temperature, rain_trend, rainfall)\<close>.
\<close>

definition day_trends ::
  "region_params \<Rightarrow> season_params \<Rightarrow> real \<Rightarrow> real \<Rightarrow> rng \<Rightarrow>
     (real \<times> real \<times> real \<times> real \<times> real) \<times> rng" where
  "day_trends params season_params temp_trend0 rain_trend0 g =
     (let (u1, g1) = random_random g;
          temp_trend = temp_trend0 * 0.5 + (u1 * 2 - 1) * 0.5;
          temp_base = base_temp params + temp_modifier season_params * seasonal_factor params;
          (u2, g2) = random_random g1;
          temp_var = temp_variation params * (0.8 + 0.4 * u2);
          temperature = temp_base + temp_trend * temp_var;
          (u3, g3) = random_random g2;
          rain_trend = rain_trend0 * 0.3 + (u3 * 2 - 1) * 0.7;
          rainfall_base = base_rainfall params * rainfall_modifier season_params;
          rainfall = max 0 (rainfall_base + rain_trend * rainfall_variation params)
      in ((temp_trend, temp_var, temperature, rain_trend, rainfall), g3))"

text \<open>
  The second part, "Extreme weather events": the drought roll, then (only when the drought
  roll fails, because of \<^verbatim>\<open>elif\<close>) the flood roll, then the ladder. It returns the
  locals \<open>(temperature, rainfall, condition)\<close>.
\<close>

definition extreme_events ::
  "region_params \<Rightarrow> real \<Rightarrow> real \<Rightarrow> rng \<Rightarrow> (real \<times> real \<times> condition) \<times> rng" where
  "extreme_events params temperature rainfall g =
     (let (u, g1) = random_random g
      in if u < drought_probability params
         then ((temperature + 3, 0, DroughtConditions), g1)
         else (let (v, g2) = random_random g1
               in if v < flood_probability params
                  then ((temperature, rainfall_variation params * 2, FloodWarning), g2)
                  else ((temperature, rainfall,
                         weather_condition params rainfall temperature), g2)))"

text \<open>
  One iteration: the loop state is \<open>(temp_trend, rain_trend)\<close> and the generator. The
  call that logs the day to the database is left out: the database is an external
  collaborator and nothing read here depends on it.
\<close>

definition forecast_day ::
  "region_params \<Rightarrow> date \<Rightarrow> int \<Rightarrow> real \<times> real \<times> rng \<Rightarrow>
     forecast_sample \<times> (real \<times> real \<times> rng)" where
  "forecast_day params today dy st =
     (case st of (temp_trend0, rain_trend0, g) \<Rightarrow>
        (let dt = today + dy;
             sn = get_current_season dt;
             season_params = seasons sn;
             ((temp_trend, temp_var, temperature0, rain_trend, rainfall0), g3) =
               day_trends params season_params temp_trend0 rain_trend0 g;
             ((temperature, rainfall, cond), g5) =
               extreme_events params temperature0 rainfall0 g3;
             humidity_base = 60 + 20 * humidity_modifier season_params;
             humidity = humidity_base + rain_trend * 10;
             (u6, g6) = random_random g5;
             wind_speed = 5 + u6 * 15
         in (\<lparr>season = sn,
               rainfall_mm = round1 rainfall,
               humidity_percent = round1 humidity,
               wind_speed_kph = round1 wind_speed,
               condition = cond,
               date = dt,
               temperature_high_c = round1 (temperature + temp_var / 2),
               temperature_low_c = round1 (temperature - temp_var / 2),
               day = dy\<rparr>,
             (temp_trend, rain_trend, g6))))"

text \<open>\<^verbatim>\<open>for day in range(1, days + 1)\<close>, appending one sample per iteration.\<close>

fun forecast_loop ::
  "region_params \<Rightarrow> date \<Rightarrow> int list \<Rightarrow> real \<times> real \<times> rng \<Rightarrow>
     forecast_sample list \<times> (real \<times> real \<times> rng)" where
  "forecast_loop params today [] st = ([], st)"
| "forecast_loop params today (dy # dys) st =
     (let (s, st1) = forecast_day params today dy st;
          (ss, st2) = forecast_loop params today dys st1
      in (s # ss, st2))"

definition generate_forecast ::
  "date \<Rightarrow> rng \<Rightarrow> string \<Rightarrow> int \<Rightarrow> py_error + (forecast_sample list \<times> rng)" where
  "generate_forecast today g region days =
     (case regions region of
        None \<Rightarrow> Inl KeyError
      | Some params \<Rightarrow>
          (case generate_current_weather today g region of
             Inl e \<Rightarrow> Inl e
           | Inr (current, g0) \<Rightarrow>
               (let (forecast, st) = forecast_loop params today [1..days] (0, 0, g0)
                in Inr (forecast, snd (snd st)))))"

subsection \<open>generate\_historical\_data\<close>

definition historical_day ::
  "region_params \<Rightarrow> date \<Rightarrow> int \<Rightarrow> rng \<Rightarrow> daily_sample \<times> rng" where
  "historical_day params end_date dy g =
     (let dt = end_date - dy;
          sn = get_current_season dt;
          season_params = seasons sn;
          temp_base = base_temp params + temp_modifier season_params * seasonal_factor params;
          (u1, g1) = random_random g;
          temp_var = temp_variation params * (0.8 + 0.4 * u1);
          (u2, g2) = random_random g1;
          temperature = temp_base + (u2 * 2 - 1) * temp_var;
          rainfall_base = base_rainfall params * rainfall_modifier season_params;
          (u3, g3) = random_random g2;
          rainfall = u3 * rainfall_variation params * rainfall_base;
          humidity_base = 60 + 20 * humidity_modifier season_params;
          (u4, g4) = random_random g3;
          humidity = humidity_base + (u4 * 20 - 10);
          (u5, g5) = random_random g4;
          wind_speed = 5 + u5 * 15
      in (\<lparr>season = sn,
            rainfall_mm = round1 rainfall,
            humidity_percent = round1 humidity,
            wind_speed_kph = round1 wind_speed,
            condition = weather_condition params rainfall temperature,
            date = dt,
            temperature_high_c = round1 (temperature + temp_var / 2),
            temperature_low_c = round1 (temperature - temp_var / 2)\<rparr>, g5))"

fun historical_loop ::
  "region_params \<Rightarrow> date \<Rightarrow> int list \<Rightarrow> rng \<Rightarrow> daily_sample list \<times> rng" where
  "historical_loop params end_date [] g = ([], g)"
| "historical_loop params end_date (dy # dys) g =
     (let (s, g1) = historical_day params end_date dy g;
          (ss, g2) = historical_loop params end_date dys g1
      in (s # ss, g2))"

text \<open>
  \<^verbatim>\<open>specific_date=None\<close> is \<open>None\<close>; a \<^verbatim>\<open>datetime\<close> is always truthy.
  \<^verbatim>\<open>range(days)\<close> is \<open>[0..days - 1]\<close>.
\<close>

definition generate_historical_data ::
  "date \<Rightarrow> rng \<Rightarrow> string \<Rightarrow> date option \<Rightarrow> int \<Rightarrow> py_error + (daily_sample list \<times> rng)" where
  "generate_historical_data today g region specific_date days =
     (case regions region of
        None \<Rightarrow> Inl KeyError
      | Some params \<Rightarrow>
          (let end_date = (case specific_date of Some d \<Rightarrow> d | None \<Rightarrow> today - 1)
           in Inr (historical_loop params end_date [0..days - 1] g)))"

section \<open>Recommendation dictionaries\<close>

text \<open>
  Every agent emits recommendations as dictionaries with the key \<^verbatim>\<open>"action"\<close> and a
  subset of the other keys; the orchestrator reads them with \<^verbatim>\<open>rec.get(key, default)\<close>.
  A key that a dictionary does not have is \<open>None\<close>. \<open>label\<close> is the one further string
  entry, with its key: \<^verbatim>\<open>"issue"\<close>, \<^verbatim>\<open>"crop"\<close>, \<^verbatim>\<open>"resource"\<close> or \<^verbatim>\<open>"practice"\<close>.
\<close>

record recommendation =
  label :: "(string \<times> string) option"
  focus :: "string option"
  action :: string
  sustainability_impact :: "real option"
  economic_impact :: "real option"
  cost_impact :: "real option"
  confidence :: "real option"

text \<open>\<^verbatim>\<open>rec.get(key, default)\<close>\<close>

definition get_or :: "'a option \<Rightarrow> 'a \<Rightarrow> 'a" where
  "get_or entry dflt = (case entry of Some v \<Rightarrow> v | None \<Rightarrow> dflt)"

text \<open>The shapes of dictionary literal that occur in the source.\<close>

definition issue_rec :: "string \<Rightarrow> string \<Rightarrow> real \<Rightarrow> real \<Rightarrow> recommendation" where
  "issue_rec i a s c =
     \<lparr>label = Some (''issue'', i), focus = None, action = a, sustainability_impact = Some s,
      economic_impact = None, cost_impact = None, confidence = Some c\<rparr>"

definition focus_rec :: "string \<Rightarrow> string \<Rightarrow> real \<Rightarrow> real \<Rightarrow> recommendation" where
  "focus_rec f a s c =
     \<lparr>label = None, focus = Some f, action = a, sustainability_impact = Some s,
      economic_impact = None, cost_impact = None, confidence = Some c\<rparr>"

text \<open>The dictionaries with a list under \<^verbatim>\<open>"recommendations"\<close> extend one record.\<close>

record with_recommendations =
  recommendations :: "recommendation list"

record group = with_recommendations +
  category :: string
  explanation :: string

record impact = with_recommendations +
  temperature_impact :: string
  rainfall_impact :: string
  overall_impact :: string

text \<open>
  What an agent operation returns: the dictionary \<^verbatim>\<open>{"status": "error", "message": m}\<close>
  or its regular result.
\<close>

datatype 'a response = Error string | Success 'a

subsection \<open>assess\_agricultural\_impact\<close>

text \<open>
  The first statement divides by \<^verbatim>\<open>len(forecast)\<close>. The parameters
  \<^verbatim>\<open>current_weather\<close> and \<^verbatim>\<open>region\<close> are not read.
\<close>

definition assess_agricultural_impact ::
  "date \<Rightarrow> current_weather \<Rightarrow> forecast_sample list \<Rightarrow> string \<Rightarrow> py_error + impact" where
  "assess_agricultural_impact today current forecast region =
     (if length forecast = 0 then Inl ZeroDivisionError
      else
        (let avg_temp = sum_list (map temperature_high_c forecast) / real (length forecast);
             avg_rainfall = sum_list (map rainfall_mm forecast);
             (ti, recs1) =
               (if avg_temp > 30 then
                  (''negative'',
                   [issue_rec ''High temperatures forecasted''
                      ''Implement shade structures and increase irrigation frequency'' 1.8 0.8])
                else if avg_temp < 10 then
                  (''negative'',
                   [issue_rec ''Low temperatures forecasted''
                      ''Consider using crop covers or delaying planting'' 1.5 0.8])
                else if 15 \<le> avg_temp \<and> avg_temp \<le> 28 then (''positive'', [])
                else (''neutral'', []));
             (ri, recs2) =
               (if avg_rainfall < 10 then
                  (''negative'',
                   [issue_rec ''Low rainfall forecasted''
                      ''Implement water conservation techniques and drip irrigation'' 2.2 0.85])
                else if avg_rainfall > 100 then
                  (''negative'',
                   [issue_rec ''High rainfall forecasted''
                      ''Ensure proper drainage and consider delayed planting'' 1.7 0.8])
                else if 20 \<le> avg_rainfall \<and> avg_rainfall \<le> 60 then (''positive'', [])
                else (''neutral'', []));
             extreme_conditions =
               filter (\<lambda>d. condition d \<in> set [DroughtConditions, FloodWarning]) forecast;
             recs3 =
               concat (map (\<lambda>c.
                 if condition c = DroughtConditions then
                   [issue_rec (''Drought conditions forecasted on '' @ strftime (date c))
                      ''Implement emergency water conservation measures and consider drought-resistant crops''
                      2.5 0.7]
                 else if condition c = FloodWarning then
                   [issue_rec (''Flood warning for '' @ strftime (date c))
                      ''Prepare flood defenses and ensure drainage systems are clear'' 2.0 0.7]
                 else []) extreme_conditions);
             oi = (if ti = ''negative'' \<or> ri = ''negative'' then ''negative''
                   else if ti = ''positive'' \<and> ri = ''positive'' then ''positive''
                   else ''neutral'');
             recs4 =
               (case get_current_season today of
                  Spring \<Rightarrow>
                    [issue_rec ''Spring planting considerations''
                       ''Ensure soil has proper temperature and moisture before planting to optimize germination''
                       1.5 0.9]
                | Summer \<Rightarrow>
                    [issue_rec ''Summer heat management''
                       ''Monitor soil moisture levels closely and implement shading or mulching to reduce evaporation''
                       1.8 0.85]
                | Fall \<Rightarrow>
                    [issue_rec ''Fall harvest timing''
                       ''Monitor forecasts for early frost and plan harvest accordingly'' 1.6 0.8]
                | Winter \<Rightarrow>
                    [issue_rec ''Winter soil management''
                       ''Consider cover crops to protect soil from erosion and improve structure''
                       2.0 0.85])
         in Inr \<lparr>recommendations = recs1 @ recs2 @ recs3 @ recs4,
                  temperature_impact = ti, rainfall_impact = ri, overall_impact = oi\<rparr>))"

subsection \<open>process\_input\<close>

text \<open>
  The query dictionary, read with \<^verbatim>\<open>input_data.get\<close>: an absent key is \<open>None\<close>.
  \<^verbatim>\<open>datetime.strptime(s, "%Y-%m-%d")\<close> is the parameter \<open>strptime\<close>, \<open>None\<close> where it
  raises \<^verbatim>\<open>ValueError\<close>. The result carries the generator, also when an exception
  escapes.
\<close>

record weather_query =
  in_region :: "string option"
  in_forecast_days :: "int option"
  in_include_historical :: "bool option"
  in_specific_date :: "string option"

record weather_result =
  res_region :: string
  res_current_weather :: current_weather
  res_forecast :: "forecast_sample list"
  res_historical_data :: "daily_sample list option"
  res_agricultural_impact :: impact

definition process_input ::
  "(string \<Rightarrow> date option) \<Rightarrow> date \<Rightarrow> rng \<Rightarrow> weather_query \<Rightarrow>
     (py_error + weather_result response) \<times> rng" where
  "process_input strptime today g input_data =
     (let rgn = (case in_region input_data of Some r \<Rightarrow> r | None \<Rightarrow> ''central'');
          forecast_days = (case in_forecast_days input_data of Some d \<Rightarrow> d | None \<Rightarrow> 7);
          include_historical =
            (case in_include_historical input_data of Some b \<Rightarrow> b | None \<Rightarrow> False);
          specific_date = in_specific_date input_data
      in if rgn \<notin> dom regions then (Inr (Error (''Unknown region: '' @ rgn)), g)
         else
           (case generate_current_weather today g rgn of
              Inl e \<Rightarrow> (Inl e, g)
            | Inr (current, g1) \<Rightarrow>
                (case generate_forecast today g1 rgn forecast_days of
                   Inl e \<Rightarrow> (Inl e, g1)
                 | Inr (forecast, g2) \<Rightarrow>
                     (let finish = (\<lambda>historical_data g3.
                            (case assess_agricultural_impact today current forecast rgn of
                               Inl e \<Rightarrow> (Inl e, g3)
                             | Inr imp \<Rightarrow>
                                 (Inr (Success
                                    \<lparr>res_region = rgn, res_current_weather = current,
                                     res_forecast = forecast,
                                     res_historical_data = historical_data,
                                     res_agricultural_impact = imp\<rparr>), g3)))
                      in if include_historical then
                           (case (case specific_date of
                                    None \<Rightarrow> None
                                  | Some sd \<Rightarrow> if sd = [] then None else Some sd) of
                              Some sd \<Rightarrow>
                                (case strptime sd of
                                   None \<Rightarrow>
                                     (Inr (Error (''Invalid date format: '' @ sd
                                                  @ ''. Use YYYY-MM-DD'')), g2)
                                 | Some d \<Rightarrow>
                                     (case generate_historical_data today g2 rgn (Some d) 30 of
                                        Inl e \<Rightarrow> (Inl e, g2)
                                      | Inr (h, g3) \<Rightarrow> finish (Some h) g3))
                            | None \<Rightarrow>
                                (case generate_historical_data today g2 rgn None 30 of
                                   Inl e \<Rightarrow> (Inl e, g2)
                                 | Inr (h, g3) \<Rightarrow> finish (Some h) g3))
                         else finish None g2))))"

subsection \<open>generate\_recommendations\<close>

definition season_name :: "season \<Rightarrow> string" where
  "season_name s =
     (case s of Spring \<Rightarrow> ''spring'' | Summer \<Rightarrow> ''summer'' | Fall \<Rightarrow> ''fall''
      | Winter \<Rightarrow> ''winter'')"

text \<open>\<^verbatim>\<open>keys[(keys.index(current_season) + 1) % 4]\<close>\<close>

definition next_season_of :: "season \<Rightarrow> season" where
  "next_season_of s =
     season_keys ! ((length (takeWhile (\<lambda>k. k \<noteq> s) season_keys) + 1) mod 4)"

text \<open>The loop over \<^verbatim>\<open>enumerate(forecast[:7])\<close>.\<close>

definition short_term_recs :: "forecast_sample list \<Rightarrow> recommendation list" where
  "short_term_recs forecast =
     concat (map (\<lambda>(i, d).
        if condition d \<in> set [HeavyRain, FloodWarning] then
          [focus_rec (''Heavy Rain Management: Day '' @ str_nat (i + 1))
             ''Ensure proper drainage and avoid field operations to prevent soil compaction''
             1.8 (0.85 - real i * 0.05)]
        else if condition d \<in> set [DroughtConditions, Hot] \<and> rainfall_mm d < 2 then
          [focus_rec (''Drought Management: Day '' @ str_nat (i + 1))
             ''Schedule irrigation for early morning to minimize evaporation''
             2.0 (0.85 - real i * 0.05)]
        else []) (enumerate 0 (take 7 forecast)))"

definition seasonal_recs :: "season \<Rightarrow> recommendation list" where
  "seasonal_recs current_season =
     (case current_season of
        Spring \<Rightarrow>
          [focus_rec ''Spring Planting''
             ''Monitor soil temperature and moisture daily; wait for soil to warm sufficiently before planting''
             1.6 0.9]
      | Summer \<Rightarrow>
          [focus_rec ''Summer Heat Management''
             ''Implement mulching to conserve soil moisture and reduce irrigation needs'' 1.9 0.85]
      | Fall \<Rightarrow>
          [focus_rec ''Fall Preparations''
             ''Plan cover crop planting to protect soil through winter and improve fertility''
             2.1 0.9]
      | Winter \<Rightarrow>
          [focus_rec ''Winter Planning''
             ''Use this time for soil testing and planning crop rotations for next growing season''
             1.7 0.9])
     @ [focus_rec (capitalize (season_name (next_season_of current_season)) @ '' Preparation'')
          (''Begin preparing for '' @ season_name (next_season_of current_season)
           @ '' conditions by reviewing expected weather patterns and adjusting plans accordingly'')
          1.5 0.8]"

definition water_recs :: "forecast_sample list \<Rightarrow> recommendation list" where
  "water_recs forecast =
     (let avg_rainfall = sum_list (map rainfall_mm (take 14 forecast)) / 14
      in (if avg_rainfall < 3 then
            [focus_rec ''Drought Mitigation''
               ''Implement rainwater harvesting systems and water-efficient irrigation methods such as drip irrigation''
               2.3 0.8]
          else if avg_rainfall > 7 then
            [focus_rec ''Excess Water Management''
               ''Ensure proper drainage systems are in place and consider raised beds for water-sensitive crops''
               1.8 0.8]
          else [])
         @ [focus_rec ''Water Conservation''
              ''Install soil moisture sensors to optimize irrigation scheduling and prevent over-watering''
              2.0 0.9])"

text \<open>
  The \<^verbatim>\<open>context\<close> is read for its region only: the farm identifier decides whether the
  recommendations are also stored in the database, which is left out.
\<close>

definition weather_generate_recommendations ::
  "date \<Rightarrow> rng \<Rightarrow> string \<Rightarrow> (py_error + group list response) \<times> rng" where
  "weather_generate_recommendations today g rgn =
     (if rgn \<notin> dom regions then (Inr (Error (''Unknown region: '' @ rgn)), g)
      else
        (case generate_current_weather today g rgn of
           Inl e \<Rightarrow> (Inl e, g)
         | Inr (current, g1) \<Rightarrow>
             (case generate_forecast today g1 rgn 14 of
                Inl e \<Rightarrow> (Inl e, g1)
              | Inr (forecast, g2) \<Rightarrow>
                  (case assess_agricultural_impact today current forecast rgn of
                     Inl e \<Rightarrow> (Inl e, g2)
                   | Inr imp \<Rightarrow>
                       (let short_term = short_term_recs forecast;
                            current_season = get_current_season today
                        in (Inr (Success
                              ((if short_term \<noteq> [] then
                                  [\<lparr>recommendations = take 3 short_term,
                                    category = ''Short-term Weather Management'',
                                    explanation =
                                      ''Immediate actions based on 7-day weather forecast''\<rparr>]
                                else [])
                               @ [\<lparr>recommendations = seasonal_recs current_season,
                                   category = ''Seasonal Planning'',
                                   explanation =
                                     ''Recommendations for current '' @ season_name current_season
                                     @ '' conditions and preparation for upcoming ''
                                     @ season_name (next_season_of current_season)\<rparr>,
                                  \<lparr>recommendations = water_recs forecast,
                                   category = ''Water Management'',
                                   explanation =
                                     ''Strategies for sustainable water usage based on precipitation forecasts''\<rparr>])),
                            g2))))))"

section \<open>agents/farmer\_advisor.py\<close>

text \<open>
  A row of the table \<^verbatim>\<open>farm_data\<close>, as \<^verbatim>\<open>get_farm_data\<close> returns it. The columns
  \<^verbatim>\<open>temperature_c\<close> and \<^verbatim>\<open>rainfall_mm\<close> are \<open>farm_temperature_c\<close> and
  \<open>farm_rainfall_mm\<close> here, apart from the weather samples' keys of the same name.
\<close>

record farm_data =
  farm_id :: int
  soil_ph :: real
  soil_moisture :: real
  farm_temperature_c :: real
  farm_rainfall_mm :: real
  crop_type :: string
  fertilizer_usage_kg :: real
  pesticide_usage_kg :: real
  crop_yield_ton :: real
  sustainability_score :: real

text \<open>
  \<^verbatim>\<open>AgriDatabase.get_farm_data(farm_id)\<close> (db/database.py): one row as a dictionary,
  \<^verbatim>\<open>None\<close> when no row has the identifier, and the list of all rows when the identifier
  is falsy, that is \<open>0\<close>.
\<close>

datatype farm_lookup = One_row farm_data | All_rows "farm_data list" | No_row

definition get_farm_data :: "farm_data list \<Rightarrow> int \<Rightarrow> farm_lookup" where
  "get_farm_data table fid =
     (if fid \<noteq> 0 then
        (case find (\<lambda>f. farm_id f = fid) table of Some f \<Rightarrow> One_row f | None \<Rightarrow> No_row)
      else All_rows table)"

text \<open>\<^verbatim>\<open>not farm_data\<close>\<close>

fun falsy :: "farm_lookup \<Rightarrow> bool" where
  "falsy No_row = True"
| "falsy (All_rows rows) = (rows = [])"
| "falsy (One_row f) = False"

subsection \<open>analyze\_soil\_data\<close>

definition soil_rec :: "string \<Rightarrow> string \<Rightarrow> real \<Rightarrow> real \<Rightarrow> recommendation" where
  "soil_rec i a s c =
     \<lparr>label = Some (''issue'', i), focus = None, action = a, sustainability_impact = Some s,
      economic_impact = None, cost_impact = Some c, confidence = None\<rparr>"

record soil_analysis = with_recommendations +
  sa_soil_ph :: "real option"
  sa_soil_moisture :: "real option"
  ph_status :: "string option"
  moisture_status :: "string option"

text \<open>
  The two arguments are \<^verbatim>\<open>soil_data.get("soil_ph")\<close> and
  \<^verbatim>\<open>soil_data.get("soil_moisture")\<close>, \<open>None\<close> for an absent key or a \<^verbatim>\<open>None\<close> value.
\<close>

definition analyze_soil_data :: "real option \<Rightarrow> real option \<Rightarrow> soil_analysis" where
  "analyze_soil_data ph moisture =
     (let (phs, recs1) =
            (case ph of
               None \<Rightarrow> (None, [])
             | Some v \<Rightarrow>
                 if v < 5.5 then
                   (Some ''acidic'',
                    [soil_rec ''Low soil pH (acidic)'' ''Apply agricultural lime to raise pH''
                       1.5 (- 0.8)])
                 else if v > 7.5 then
                   (Some ''alkaline'',
                    [soil_rec ''High soil pH (alkaline)''
                       ''Apply organic matter or elemental sulfur to lower pH'' 1.2 (- 0.5)])
                 else (Some ''optimal'', []));
          (ms, recs2) =
            (case moisture of
               None \<Rightarrow> (None, [])
             | Some v \<Rightarrow>
                 if v < 20 then
                   (Some ''dry'',
                    [soil_rec ''Low soil moisture''
                       ''Implement drip irrigation system and mulching to conserve water''
                       2.0 (- 1.2)])
                 else if v > 40 then
                   (Some ''wet'',
                    [soil_rec ''High soil moisture'' ''Improve drainage and consider raised beds''
                       1.0 (- 0.9)])
                 else (Some ''optimal'', []))
      in \<lparr>recommendations = recs1 @ recs2, sa_soil_ph = ph, sa_soil_moisture = moisture,
          ph_status = phs, moisture_status = ms\<rparr>)"

subsection \<open>recommend\_crops, recommend\_resource\_optimization, recommend\_sustainable\_practices\<close>

definition key_rec ::
  "string \<Rightarrow> string \<Rightarrow> string \<Rightarrow> real \<Rightarrow> real \<Rightarrow> real \<Rightarrow> recommendation" where
  "key_rec k v a s e c =
     \<lparr>label = Some (k, v), focus = None, action = a, sustainability_impact = Some s,
      economic_impact = Some e, cost_impact = None, confidence = Some c\<rparr>"

definition recommend_crops :: "farm_data \<Rightarrow> string \<Rightarrow> int \<Rightarrow> recommendation list" where
  "recommend_crops fd financial_goal sustainability_preference =
     (if soil_ph fd < 6.0 then
        (if farm_temperature_c fd < 25 \<and> farm_rainfall_mm fd > 200 then
           [key_rec ''crop'' ''Rice''
              ''Consider planting Rice which performs well in acidic soils with high rainfall''
              1.5 1.8 0.8]
         else [])
      else if soil_ph fd \<ge> 6.0 \<and> soil_ph fd \<le> 7.0 then
        (if soil_moisture fd > 30 then
           [key_rec ''crop'' ''Corn''
              ''Consider planting Corn which performs well in neutral soils with good moisture''
              1.7 2.0 0.85]
         else
           [key_rec ''crop'' ''Wheat''
              ''Consider planting Wheat which performs well in neutral soils with moderate moisture''
              1.8 1.6 0.8])
      else
        [key_rec ''crop'' ''Soybean''
           ''Consider planting Soybean which can perform well in slightly alkaline soils''
           2.0 1.7 0.75])
     @ (if sustainability_preference > 7 then
          [key_rec ''crop'' ''Crop Rotation''
             ''Implement a crop rotation system including nitrogen-fixing legumes to improve soil health''
             2.5 1.0 0.9]
        else [])"

definition recommend_resource_optimization :: "farm_data \<Rightarrow> int \<Rightarrow> recommendation list" where
  "recommend_resource_optimization fd sustainability_preference =
     (if farm_rainfall_mm fd < 150 then
        [key_rec ''resource'' ''Water''
           ''Implement drip irrigation and rainwater harvesting to optimize water usage''
           2.2 0.8 0.85]
      else [])
     @ (if fertilizer_usage_kg fd > 120 then
          [key_rec ''resource'' ''Fertilizer''
             ''Implement precision agriculture techniques for targeted fertilizer application''
             2.0 1.2 0.8]
        else [])
     @ (if pesticide_usage_kg fd > 10 then
          [key_rec ''resource'' ''Pesticides''
             ''Adopt integrated pest management (IPM) to reduce chemical pesticide usage''
             2.5 0.9 0.85]
        else [])
     @ [key_rec ''resource'' ''Soil''
          ''Implement cover cropping and minimal tillage to improve soil health and reduce erosion''
          2.3 1.0 0.9]"

definition recommend_sustainable_practices :: "farm_data \<Rightarrow> int \<Rightarrow> recommendation list" where
  "recommend_sustainable_practices fd sustainability_preference =
     [key_rec ''practice'' ''Soil Testing''
        ''Conduct regular soil testing to optimize inputs and reduce waste'' 1.8 1.5 0.9,
      key_rec ''practice'' ''Organic Matter''
        ''Increase soil organic matter through compost application and crop residue management''
        2.0 0.9 0.85]
     @ (if sustainability_preference > 5 then
          [key_rec ''practice'' ''Biodiversity''
             ''Maintain field margins and hedgerows to promote biodiversity and natural pest control''
             2.2 0.5 0.8]
        else [])
     @ (if sustainability_preference > 8 then
          [key_rec ''practice'' ''Renewable Energy''
             ''Consider installing solar panels or wind turbines to power farm operations''
             2.5 (- 0.5) 0.75]
        else [])"

subsection \<open>generate\_recommendations\<close>

text \<open>
  The context gives the farm identifier, the financial goal and the preference. The two
  rankings computed from the data frame are not used afterwards, and storing the
  recommendations in the database is left out. A lookup that returns the list of all rows
  fails at \<^verbatim>\<open>farm_data["soil_ph"]\<close> with \<^verbatim>\<open>TypeError\<close>.
\<close>

definition farmer_generate_recommendations ::
  "farm_data list \<Rightarrow> int \<Rightarrow> string \<Rightarrow> int \<Rightarrow> py_error + group list response" where
  "farmer_generate_recommendations table fid financial_goal sustainability_preference =
     (let looked_up = get_farm_data table fid
      in if falsy looked_up then
           Inr (Error (''Farm ID '' @ str_int fid @ '' not found''))
         else
           (case looked_up of
              One_row fd \<Rightarrow>
                Inr (Success
                  [\<lparr>recommendations = recommend_crops fd financial_goal sustainability_preference,
                    category = ''Crop Selection'',
                    explanation =
                      ''Crop selection based on your soil conditions, climate, and market demand''\<rparr>,
                   \<lparr>recommendations = recommend_resource_optimization fd sustainability_preference,
                    category = ''Resource Optimization'',
                    explanation =
                      ''Optimizing resource usage to reduce environmental impact and costs''\<rparr>,
                   \<lparr>recommendations = recommend_sustainable_practices fd sustainability_preference,
                    category = ''Sustainable Practices'',
                    explanation =
                      ''Sustainable farming practices to improve long-term soil health and productivity''\<rparr>])
            | _ \<Rightarrow> Inl TypeError))"

section \<open>agents/market\_researcher.py\<close>

subsection \<open>determine\_market\_status\<close>

text \<open>The ratio is a float or \<^verbatim>\<open>float('inf')\<close>, which exceeds every float.\<close>

datatype ratio = Finite real | Infinite

fun ratio_gt :: "ratio \<Rightarrow> real \<Rightarrow> bool" where
  "ratio_gt (Finite r) x = (r > x)"
| "ratio_gt Infinite x = True"

fun ratio_lt :: "ratio \<Rightarrow> real \<Rightarrow> bool" where
  "ratio_lt (Finite r) x = (r < x)"
| "ratio_lt Infinite x = False"

definition determine_market_status :: "real \<Rightarrow> real \<Rightarrow> string" where
  "determine_market_status demand supply =
     (let ratio = (if supply > 0 then Finite (demand / supply) else Infinite)
      in if ratio_gt ratio 1.2 then ''undersupplied''
         else if ratio_lt ratio 0.8 then ''oversupplied''
         else ''balanced'')"

text \<open>
  The three statuses in order, from "oversupplied" up to "undersupplied".
\<close>

definition status_rank :: "string \<Rightarrow> nat" where
  "status_rank s = (if s = ''oversupplied'' then 0 else if s = ''balanced'' then 1 else 2)"

subsection \<open>The recommendations of the market researcher\<close>

text \<open>
  \<^verbatim>\<open>MarketResearcher.generate_recommendations\<close> aggregates the market table with pandas;
  the orchestrator takes the list it returns as a parameter. Every recommendation
  dictionary that module builds has exactly the keys \<^verbatim>\<open>"focus"\<close>, \<^verbatim>\<open>"action"\<close>,
  \<^verbatim>\<open>"economic_impact"\<close> and \<^verbatim>\<open>"confidence"\<close>.
\<close>

record market_rec =
  m_focus :: string
  m_action :: string
  m_economic_impact :: real
  m_confidence :: real

record market_group =
  m_category :: string
  m_recommendations :: "market_rec list"
  m_explanation :: string

definition of_market_rec :: "market_rec \<Rightarrow> recommendation" where
  "of_market_rec m =
     \<lparr>label = None, focus = Some (m_focus m), action = m_action m,
      sustainability_impact = None, economic_impact = Some (m_economic_impact m),
      cost_impact = None, confidence = Some (m_confidence m)\<rparr>"

definition of_market_group :: "market_group \<Rightarrow> group" where
  "of_market_group mg =
     \<lparr>recommendations = map of_market_rec (m_recommendations mg),
      category = m_category mg, explanation = m_explanation mg\<rparr>"

section \<open>models/multi\_agent\_system.py\<close>

subsection \<open>generate\_farm\_recommendations\<close>

record scored =
  hp_category :: string
  hp_focus :: string
  hp_action :: string
  hp_sustainability_impact :: real
  hp_economic_impact :: real
  hp_confidence :: real
  score :: real

text \<open>The body of the inner loop of \<^verbatim>\<open>extract_recs\<close>.\<close>

definition score_rec :: "int \<Rightarrow> string \<Rightarrow> real \<Rightarrow> recommendation \<Rightarrow> scored" where
  "score_rec sustainability_preference cat weight rec =
     (let sustainability = get_or (sustainability_impact rec) 0;
          economic = get_or (economic_impact rec) 0;
          conf = get_or (confidence rec) 0.5;
          sustainability_weight = real_of_int sustainability_preference / 10;
          economic_weight = 1 - sustainability_weight;
          sc = (sustainability * sustainability_weight + economic * economic_weight)
               * conf * weight
      in \<lparr>hp_category = cat,
          hp_focus = get_or (focus rec) [],
          hp_action = action rec,
          hp_sustainability_impact = sustainability,
          hp_economic_impact = economic,
          hp_confidence = conf,
          score = sc\<rparr>)"

text \<open>
  \<^verbatim>\<open>extract_recs(category, source, weight)\<close> returns here the items it appends to
  \<^verbatim>\<open>high_priority\<close>. When the agent returned its error dictionary, the loop visits the
  keys of that dictionary and \<^verbatim>\<open>group["recommendations"]\<close> on a string raises
  \<^verbatim>\<open>TypeError\<close>.
\<close>

definition extract_recs ::
  "int \<Rightarrow> string \<Rightarrow> group list response \<Rightarrow> real \<Rightarrow> py_error + scored list" where
  "extract_recs sustainability_preference cat source weight =
     (case source of
        Error m \<Rightarrow> Inl TypeError
      | Success groups \<Rightarrow>
          Inr (concat (map (\<lambda>gr. map (score_rec sustainability_preference cat weight)
                                    (recommendations gr)) groups)))"

text \<open>
  \<^verbatim>\<open>high_priority.sort(key=lambda x: x["score"], reverse=True)\<close>: Python's sort is
  stable, also with \<^verbatim>\<open>reverse=True\<close>, so it is the stable sort on the negated key.
\<close>

definition sort_by_score :: "scored list \<Rightarrow> scored list" where
  "sort_by_score xs = sort_key (\<lambda>x. - score x) xs"

record sustainability_summary =
  current_score :: real
  potential_score :: real
  improvement_percentage :: real

definition summarise :: "real \<Rightarrow> scored list \<Rightarrow> sustainability_summary" where
  "summarise initial_sustainability top5 =
     (let potential_improvement = sum_list (map hp_sustainability_impact top5) * 0.2
      in \<lparr>current_score = initial_sustainability,
          potential_score = min 100 (initial_sustainability + potential_improvement),
          improvement_percentage =
            (if initial_sustainability > 0
             then (potential_improvement / initial_sustainability) * 100 else 0)\<rparr>)"

record farm_recommendations =
  out_farm_data :: farm_data
  farming_recommendations :: "group list response"
  market_recommendations :: "group list response"
  weather_recommendations :: "group list response"
  high_priority_actions :: "scored list"
  out_sustainability_summary :: sustainability_summary

text \<open>
  The orchestrator, with the language-model enrichment switched off (\<^verbatim>\<open>use_llm\<close> false;
  the enrichment only adds text entries to the result). \<open>table\<close> is the farm table,
  \<open>market\<close> the list the market researcher returns, \<open>today\<close> and \<open>g\<close> the clock and the
  generator the weather station reads.
\<close>

definition generate_farm_recommendations ::
  "farm_data list \<Rightarrow> market_group list \<Rightarrow> date \<Rightarrow> rng \<Rightarrow> int \<Rightarrow> string \<Rightarrow> string \<Rightarrow> int \<Rightarrow>
     (py_error + farm_recommendations response) \<times> rng" where
  "generate_farm_recommendations table market today g fid rgn financial_goal
       sustainability_preference =
     (let looked_up = get_farm_data table fid
      in if falsy looked_up then
           (Inr (Error (''Farm ID '' @ str_int fid @ '' not found'')), g)
         else
           (case looked_up of
              One_row fd \<Rightarrow>
                (case farmer_generate_recommendations table fid financial_goal
                        sustainability_preference of
                   Inl e \<Rightarrow> (Inl e, g)
                 | Inr farming \<Rightarrow>
                     (let marketing = Success (map of_market_group market)
                      in case weather_generate_recommendations today g rgn of
                           (Inl e, g1) \<Rightarrow> (Inl e, g1)
                         | (Inr weather, g1) \<Rightarrow>
                             (case extract_recs sustainability_preference
                                     ''Farming Practices'' farming 1.0 of
                                Inl e \<Rightarrow> (Inl e, g1)
                              | Inr hp1 \<Rightarrow>
                                  (case extract_recs sustainability_preference
                                          ''Market Strategy'' marketing 0.9 of
                                     Inl e \<Rightarrow> (Inl e, g1)
                                   | Inr hp2 \<Rightarrow>
                                       (case extract_recs sustainability_preference
                                               ''Weather Management'' weather 0.8 of
                                          Inl e \<Rightarrow> (Inl e, g1)
                                        | Inr hp3 \<Rightarrow>
                                            (let high_priority =
                                                   sort_by_score (hp1 @ hp2 @ hp3);
                                                 top5 = take 5 high_priority
                                             in (Inr (Success
                                                   \<lparr>out_farm_data = fd,
                                                    farming_recommendations = farming,
                                                    market_recommendations = marketing,
                                                    weather_recommendations = weather,
                                                    high_priority_actions = top5,
                                                    out_sustainability_summary =
                                                      summarise (sustainability_score fd) top5\<rparr>),
                                                 g1)))))))
            | _ \<Rightarrow> (Inl TypeError, g)))"

subsection \<open>The claims about the orchestrator, in the words of the specification\<close>

text \<open>
  The items gathered from the three agents, in the order in which \<^verbatim>\<open>extract_recs\<close>
  appends them to \<^verbatim>\<open>high_priority\<close>.
\<close>

definition gathered :: "int \<Rightarrow> group list \<Rightarrow> group list \<Rightarrow> group list \<Rightarrow> scored list" where
  "gathered preference farming marketing weather =
     map (score_rec preference ''Farming Practices'' 1.0) (concat (map recommendations farming))
     @ map (score_rec preference ''Market Strategy'' 0.9) (concat (map recommendations marketing))
     @ map (score_rec preference ''Weather Management'' 0.8) (concat (map recommendations weather))"

text \<open>
  The score of the specification, evaluated on the entries the code reads with their
  defaults, the preference taken as it is passed.
\<close>

definition weighted_score :: "int \<Rightarrow> real \<Rightarrow> recommendation \<Rightarrow> real" where
  "weighted_score preference source_weight r =
     (get_or (sustainability_impact r) 0 * (real_of_int preference / 10)
      + get_or (economic_impact r) 0 * (1 - real_of_int preference / 10))
     * get_or (confidence r) 0.5 * source_weight"

text \<open>
  The score in the words of the specification, with the preference clamped to the range from
  1 to 10.
\<close>

definition clamp_preference :: "int \<Rightarrow> int" where
  "clamp_preference p = max 1 (min 10 p)"

definition spec_score :: "int \<Rightarrow> real \<Rightarrow> real \<Rightarrow> real \<Rightarrow> real \<Rightarrow> real" where
  "spec_score preference source_weight sustainability economic conf =
     (let w_s = real_of_int (clamp_preference preference) / 10;
          w_e = 1 - w_s
      in (sustainability * w_s + economic * w_e) * conf * source_weight)"

text \<open>A recommendation whose sustainability impact, where it has one, is not negative.\<close>

definition nonneg_rec :: "recommendation \<Rightarrow> bool" where
  "nonneg_rec r = (0 \<le> get_or (sustainability_impact r) 0)"

subsection \<open>Example data\<close>

text \<open>
  The parcel of the specification's concrete scenario, as the only row of a farm table, and
  a list as the market researcher returns it.
\<close>

definition example_farm :: farm_data where
  "example_farm =
     \<lparr>farm_id = 1, soil_ph = 6.7, soil_moisture = 28.5, farm_temperature_c = 24.2,
      farm_rainfall_mm = 180.5, crop_type = ''Rice'', fertilizer_usage_kg = 100,
      pesticide_usage_kg = 5, crop_yield_ton = 3, sustainability_score = 45\<rparr>"

definition example_market :: "market_group list" where
  "example_market =
     [\<lparr>m_category = ''Market Opportunities'',
       m_recommendations =
         [\<lparr>m_focus = ''High Potential: Rice'',
           m_action = ''Rice shows high profit potential with demand exceeds supply and growing consumer interest'',
           m_economic_impact = 3, m_confidence = 0.8\<rparr>],
       m_explanation = ''Top short-term market opportunities across all crops''\<rparr>,
      \<lparr>m_category = ''Diversification Strategy'',
       m_recommendations =
         [\<lparr>m_focus = ''Risk Management'',
           m_action = ''Implement a multi-crop strategy to reduce market volatility risks'',
           m_economic_impact = 1.4, m_confidence = 0.85\<rparr>],
       m_explanation =
         ''Recommendations for crop diversification to optimize profits and reduce risk''\<rparr>]"

section \<open>Properties of the weather station\<close>

lemma weather_condition_normal:
  "weather_condition p r t \<in> {HeavyRain, LightRain, Hot, Cold, Clear}"
  by (simp add: weather_condition_def)

lemma historical_day_condition:
  "condition (fst (historical_day p e d g)) \<in> {HeavyRain, LightRain, Hot, Cold, Clear}"
  using weather_condition_normal
  by (simp add: historical_day_def Let_def split_def)

lemma historical_loop_conditions:
  "s \<in> set (fst (historical_loop p e ds g)) \<Longrightarrow>
     condition s \<in> {HeavyRain, LightRain, Hot, Cold, Clear}"
proof (induction ds arbitrary: g)
  case Nil
  then show ?case by simp
next
  case (Cons d ds)
  then show ?case
    using historical_day_condition [of p e d g]
    by (auto simp: Let_def split_def simp del: insert_iff)
qed

text \<open>
  Claim C10. Historical backfill for a configured region returns, and every sample it returns
  carries one of the five ladder tags Heavy Rain, Light Rain, Hot, Cold, Clear: the drought
  and flood tags never occur, since \<open>historical_day\<close> has no extreme-event roll.
\<close>

theorem historical_conditions_normal:
  assumes "region \<in> dom regions"
  shows "\<exists>hist g'. generate_historical_data today g region specific_date days = Inr (hist, g')
           \<and> (\<forall>s \<in> set hist. condition s \<in> {HeavyRain, LightRain, Hot, Cold, Clear}
                 \<and> condition s \<noteq> DroughtConditions \<and> condition s \<noteq> FloodWarning)"
proof -
  from assms obtain p where p: "regions region = Some p" by auto
  define e where "e = (case specific_date of Some d \<Rightarrow> d | None \<Rightarrow> today - 1)"
  have "generate_historical_data today g region specific_date days
          = Inr (historical_loop p e [0..days - 1] g)"
    by (simp add: generate_historical_data_def p e_def)
  moreover have "\<forall>s \<in> set (fst (historical_loop p e [0..days - 1] g)).
      condition s \<in> {HeavyRain, LightRain, Hot, Cold, Clear}
      \<and> condition s \<noteq> DroughtConditions \<and> condition s \<noteq> FloodWarning"
    using historical_loop_conditions [of _ p e "[0..days - 1]" g] by fastforce
  ultimately show ?thesis
    by (metis prod.collapse)
qed

lemma length_forecast_loop: "length (fst (forecast_loop p today ds st)) = length ds"
  by (induction ds arbitrary: st) (auto simp: Let_def split_def)

lemma date_forecast_day: "date (fst (forecast_day p today d st)) = today + d"
  by (simp add: forecast_day_def Let_def split_def)

lemma dates_forecast_loop:
  "map date (fst (forecast_loop p today ds st)) = map (\<lambda>d. today + d) ds"
  by (induction ds arbitrary: st) (auto simp: Let_def split_def date_forecast_day)

lemma generate_current_weather_returns:
  "regions region = Some p \<Longrightarrow> \<exists>cw. generate_current_weather today g region = Inr (cw, advance 6 g)"
  by (simp add: generate_current_weather_def Let_def split_def random_random_def advance_def eval_nat_numeral)

text \<open>
  Claim C2. For a configured region and \<open>days > 0\<close> the forecast returns exactly
  \<open>days\<close> samples; the sample at position \<open>i\<close> is dated \<open>today + 1 + i\<close>, so the
  dates start tomorrow and strictly ascend one day at a time.
\<close>

theorem forecast_length_dates:
  assumes "region \<in> dom regions" and "0 < days"
  shows "\<exists>fc g'. generate_forecast today g region days = Inr (fc, g')
           \<and> length fc = nat days
           \<and> (\<forall>i < nat days. date (fc ! i) = today + 1 + int i)
           \<and> sorted_wrt (<) (map date fc)"
proof -
  from assms obtain p where p: "regions region = Some p" by auto
  from generate_current_weather_returns [OF p] obtain cw
    where cw: "generate_current_weather today g region = Inr (cw, advance 6 g)" by blast
  define r where "r = forecast_loop p today [1..days] (0, 0, advance 6 g)"
  have gf: "generate_forecast today g region days = Inr (fst r, snd (snd (snd r)))"
    by (simp add: generate_forecast_def p cw r_def split_def Let_def)
  have len: "length (fst r) = nat days"
    by (simp add: r_def length_forecast_loop)
  have dts: "map date (fst r) = map (\<lambda>d. today + d) [1..days]"
    by (simp add: r_def dates_forecast_loop)
  have nth: "date (fst r ! i) = today + 1 + int i" if "i < nat days" for i
  proof -
    have "date (fst r ! i) = map date (fst r) ! i"
      using that len by simp
    also have "\<dots> = today + [1..days] ! i"
      using that by (simp add: dts)
    also have "[1..days] ! i = 1 + int i"
      using that by (simp add: nth_upto)
    finally show ?thesis by simp
  qed
  have "sorted_wrt (<) (map date (fst r))"
    unfolding dts by (simp add: sorted_wrt_map sorted_wrt_upto)
  with gf len nth show ?thesis by blast
qed

lemma forecast_day_prefix:
  assumes "\<forall>n<6. g' n = g n"
  shows "\<exists>k\<le>6. forecast_day p today d (tt, rt, g')
           = (fst (forecast_day p today d (tt, rt, g)),
              fst (snd (forecast_day p today d (tt, rt, g))),
              fst (snd (snd (forecast_day p today d (tt, rt, g)))),
              advance k g')
         \<and> snd (snd (snd (forecast_day p today d (tt, rt, g)))) = advance k g"
proof -
  have e: "g' 0 = g 0" "g' 1 = g 1" "g' 2 = g 2" "g' 3 = g 3" "g' 4 = g 4" "g' 5 = g 5"
    using assms by simp_all
  have e': "g' (Suc 0) = g (Suc 0)" "g' (Suc (Suc 0)) = g (Suc (Suc 0))"
    "g' (Suc (Suc (Suc 0))) = g (Suc (Suc (Suc 0)))"
    "g' (Suc (Suc (Suc (Suc 0)))) = g (Suc (Suc (Suc (Suc 0))))"
    "g' (Suc (Suc (Suc (Suc (Suc 0))))) = g (Suc (Suc (Suc (Suc (Suc 0)))))"
    using e by (simp_all add: eval_nat_numeral)
  show ?thesis
  proof (cases "g 3 < drought_probability p")
    case True
    then have "forecast_day p today d (tt, rt, g')
           = (fst (forecast_day p today d (tt, rt, g)),
              fst (snd (forecast_day p today d (tt, rt, g))),
              fst (snd (snd (forecast_day p today d (tt, rt, g)))),
              advance 5 g')
         \<and> snd (snd (snd (forecast_day p today d (tt, rt, g)))) = advance 5 g"
      using e(1) e'
      by (simp add: forecast_day_def day_trends_def extreme_events_def Let_def split_def
          random_random_def advance_def eval_nat_numeral)
    then show ?thesis by (intro exI [of _ 5]) simp
  next
    case False
    then have "forecast_day p today d (tt, rt, g')
           = (fst (forecast_day p today d (tt, rt, g)),
              fst (snd (forecast_day p today d (tt, rt, g))),
              fst (snd (snd (forecast_day p today d (tt, rt, g)))),
              advance 6 g')
         \<and> snd (snd (snd (forecast_day p today d (tt, rt, g)))) = advance 6 g"
      using e(1) e'
      by (simp add: forecast_day_def day_trends_def extreme_events_def Let_def split_def
          random_random_def advance_def eval_nat_numeral)
    then show ?thesis by (intro exI [of _ 6]) simp
  qed
qed

lemma forecast_loop_prefix:
  "\<forall>n < 6 * length ds. g' n = g n \<Longrightarrow>
     fst (forecast_loop p today ds (tt, rt, g')) = fst (forecast_loop p today ds (tt, rt, g))"
proof (induction ds arbitrary: tt rt g g')
  case Nil
  then show ?case by simp
next
  case (Cons d ds)
  have "\<forall>n<6. g' n = g n" using Cons.prems by simp
  from forecast_day_prefix [OF this, of p today d tt rt] obtain k where k: "k \<le> 6"
    and s': "forecast_day p today d (tt, rt, g')
           = (fst (forecast_day p today d (tt, rt, g)),
              fst (snd (forecast_day p today d (tt, rt, g))),
              fst (snd (snd (forecast_day p today d (tt, rt, g)))),
              advance k g')"
    and s: "snd (snd (snd (forecast_day p today d (tt, rt, g)))) = advance k g"
    by blast
  obtain smp tt1 rt1 where fd: "forecast_day p today d (tt, rt, g) = (smp, tt1, rt1, advance k g)"
    using s by (metis prod.collapse)
  have fd': "forecast_day p today d (tt, rt, g') = (smp, tt1, rt1, advance k g')"
    using s' fd by simp
  have "\<forall>n < 6 * length ds. advance k g' n = advance k g n"
    using Cons.prems k by (simp add: advance_def)
  from Cons.IH [OF this]
  have "fst (forecast_loop p today ds (tt1, rt1, advance k g'))
      = fst (forecast_loop p today ds (tt1, rt1, advance k g))" .
  then show ?case
    by (simp add: fd fd' split_def Let_def)
qed

text \<open>
  Claim C3, as the code has it. Two runs of the forecast for the same region and number of
  days, made on the same calendar day, whose generators deliver the same draws (the same
  seed, no draw in between) return the same sample sequence. At most \<open>6 + 6 * days\<close>
  draws are consumed, so agreement on that prefix of the draw sequence is enough. The day
  of the call is an input of the forecast: every sample is dated, and its season chosen,
  from \<^verbatim>\<open>datetime.now()\<close>.
\<close>

theorem forecast_deterministic:
  assumes "region \<in> dom regions"
    and "\<forall>n < 6 + 6 * nat days. g' n = g n"
  shows "\<exists>fc h h'. generate_forecast today g region days = Inr (fc, h)
            \<and> generate_forecast today g' region days = Inr (fc, h')"
proof -
  from assms obtain p where p: "regions region = Some p" by auto
  from generate_current_weather_returns [OF p] obtain cw
    where cw: "generate_current_weather today g region = Inr (cw, advance 6 g)" by blast
  from generate_current_weather_returns [OF p] obtain cw'
    where cw': "generate_current_weather today g' region = Inr (cw', advance 6 g')" by blast
  have "\<forall>n < 6 * length [1..days]. advance 6 g' n = advance 6 g n"
    using assms(2) by (simp add: advance_def)
  from forecast_loop_prefix [OF this]
  have "fst (forecast_loop p today [1..days] (0, 0, advance 6 g'))
      = fst (forecast_loop p today [1..days] (0, 0, advance 6 g))" .
  then show ?thesis
    by (simp add: generate_forecast_def p cw cw' split_def Let_def)
qed

lemma forecast_loop_append:
  "forecast_loop p t (xs @ ys) st =
     (fst (forecast_loop p t xs st) @ fst (forecast_loop p t ys (snd (forecast_loop p t xs st))),
      snd (forecast_loop p t ys (snd (forecast_loop p t xs st))))"
  by (induction xs arbitrary: st) (simp_all add: split_def Let_def)

lemma forecast_loop_upto_nth:
  assumes "i < nat days"
  shows "fst (forecast_loop p t [1..days] st) ! i
           = fst (forecast_day p t (1 + int i) (snd (forecast_loop p t [1..int i] st)))"
proof -
  have split: "[1..days] = [1..int i] @ (1 + int i) # [2 + int i..days]"
  proof -
    have "[1..days] = [1..(1 + int i) - 1] @ [1 + int i..days]"
      using assms by (intro upto_split1) auto
    also have "[1 + int i..days] = (1 + int i) # [2 + int i..days]"
      using assms by (subst upto_rec1) (auto simp: ac_simps)
    finally show ?thesis by simp
  qed
  have len: "length (fst (forecast_loop p t [1..int i] st)) = i"
    by (simp add: length_forecast_loop)
  show ?thesis
    unfolding split forecast_loop_append
    by (simp add: nth_append len split_def Let_def)
qed

lemma forecast_day_condition:
  "condition (fst (forecast_day p today d (tt, rt, h))) =
     (case day_trends p (seasons (get_current_season (today + d))) tt rt h of
        ((tt', tv, temperature, rt', rainfall), h3) \<Rightarrow>
          (if h3 0 < drought_probability p then DroughtConditions
           else if h3 1 < flood_probability p then FloodWarning
           else if rainfall > rainfall_variation p then HeavyRain
           else if rainfall > rainfall_variation p / 2 then LightRain
           else if temperature > base_temp p + temp_variation p then Hot
           else if temperature < base_temp p - temp_variation p then Cold
           else Clear))"
  by (simp add: forecast_day_def extreme_events_def weather_condition_def Let_def split_def
      random_random_def)

text \<open>
  Claim C6. On forecast day \<open>i + 1\<close>, with \<open>(tt, rt, h)\<close> the loop state before that
  day, \<open>temperature\<close> and \<open>rainfall\<close> the values the day derives from the trends and
  \<open>h3\<close> the generator at the event rolls: a drought roll below the drought probability
  forces Drought Conditions; otherwise a flood roll below the flood probability forces Flood
  Warning; otherwise the tag is given by the ladder Heavy Rain, Light Rain, Hot, Cold, Clear.
\<close>

theorem forecast_condition_ladder:
  assumes "regions region = Some p"
  shows "\<exists>fc g'. generate_forecast today g region days = Inr (fc, g')
     \<and> length fc = nat days
     \<and> (\<forall>i < nat days.
          \<exists>tt rt h. snd (forecast_loop p today [1..int i] (0, 0, advance 6 g)) = (tt, rt, h)
          \<and> (case day_trends p (seasons (get_current_season (today + (1 + int i)))) tt rt h of
                ((tt', tv, temperature, rt', rainfall), h3) \<Rightarrow>
                  condition (fc ! i) =
                    (if h3 0 < drought_probability p then DroughtConditions
                     else if h3 1 < flood_probability p then FloodWarning
                     else if rainfall > rainfall_variation p then HeavyRain
                     else if rainfall > rainfall_variation p / 2 then LightRain
                     else if temperature > base_temp p + temp_variation p then Hot
                     else if temperature < base_temp p - temp_variation p then Cold
                     else Clear)))"
proof -
  from generate_current_weather_returns [OF assms] obtain cw
    where cw: "generate_current_weather today g region = Inr (cw, advance 6 g)" by blast
  define r where "r = forecast_loop p today [1..days] (0, 0, advance 6 g)"
  have gf: "generate_forecast today g region days = Inr (fst r, snd (snd (snd r)))"
    by (simp add: generate_forecast_def assms cw r_def split_def Let_def)
  have len: "length (fst r) = nat days"
    by (simp add: r_def length_forecast_loop)
  have day: "\<exists>tt rt h. snd (forecast_loop p today [1..int i] (0, 0, advance 6 g)) = (tt, rt, h)
          \<and> (case day_trends p (seasons (get_current_season (today + (1 + int i)))) tt rt h of
                ((tt', tv, temperature, rt', rainfall), h3) \<Rightarrow>
                  condition (fst r ! i) =
                    (if h3 0 < drought_probability p then DroughtConditions
                     else if h3 1 < flood_probability p then FloodWarning
                     else if rainfall > rainfall_variation p then HeavyRain
                     else if rainfall > rainfall_variation p / 2 then LightRain
                     else if temperature > base_temp p + temp_variation p then Hot
                     else if temperature < base_temp p - temp_variation p then Cold
                     else Clear))" if "i < nat days" for i
  proof -
    obtain tt rt h where st: "snd (forecast_loop p today [1..int i] (0, 0, advance 6 g)) = (tt, rt, h)"
      by (metis prod.collapse)
    obtain x h3 where x: "day_trends p (seasons (get_current_season (today + (1 + int i)))) tt rt h = (x, h3)"
      by (metis prod.collapse)
    obtain a b temperature d rainfall where x5: "x = (a, b, temperature, d, rainfall)"
      by (metis prod.collapse)
    have eq: "fst r ! i = fst (forecast_day p today (1 + int i) (tt, rt, h))"
      using forecast_loop_upto_nth [OF that, of p today "(0, 0, advance 6 g)"]
      by (simp add: r_def st)
    have c: "condition (fst r ! i) =
                    (if h3 0 < drought_probability p then DroughtConditions
                     else if h3 1 < flood_probability p then FloodWarning
                     else if rainfall > rainfall_variation p then HeavyRain
                     else if rainfall > rainfall_variation p / 2 then LightRain
                     else if temperature > base_temp p + temp_variation p then Hot
                     else if temperature < base_temp p - temp_variation p then Cold
                     else Clear)"
      unfolding eq forecast_day_condition x x5 prod.case ..
    show ?thesis
    proof (intro exI conjI)
      show "snd (forecast_loop p today [1..int i] (0, 0, advance 6 g)) = (tt, rt, h)"
        by (rule st)
      show "case day_trends p (seasons (get_current_season (today + (1 + int i)))) tt rt h of
                ((tt', tv, temperature, rt', rainfall), h3) \<Rightarrow>
                  condition (fst r ! i) =
                    (if h3 0 < drought_probability p then DroughtConditions
                     else if h3 1 < flood_probability p then FloodWarning
                     else if rainfall > rainfall_variation p then HeavyRain
                     else if rainfall > rainfall_variation p / 2 then LightRain
                     else if temperature > base_temp p + temp_variation p then Hot
                     else if temperature < base_temp p - temp_variation p then Cold
                     else Clear)"
        unfolding x x5 prod.case by (rule c)
    qed
  qed
  from gf len day show ?thesis by blast
qed

text \<open>
  Claim C3 as stated fails across days: with the same generator, region and number of days,
  the call made on 2026-11-29 returns the sample of 2026-11-30, in fall, and the call made on
  2026-11-30 returns the sample of 2026-12-01, in winter, with another temperature, rainfall
  and humidity.
\<close>

theorem forecast_other_day_counterexample:
  "map_sum id (\<lambda>(fc, g). map (\<lambda>s. (date s, season s, temperature_high_c s, rainfall_mm s,
                                      humidity_percent s)) fc)
     (generate_forecast 739949 (\<lambda>n. 1 / 2) ''central'' 1)
     = Inr [(739950, Fall, 25, 3, 80)]
   \<and> map_sum id (\<lambda>(fc, g). map (\<lambda>s. (date s, season s, temperature_high_c s, rainfall_mm s,
                                        humidity_percent s)) fc)
       (generate_forecast 739950 (\<lambda>n. 1 / 2) ''central'' 1)
     = Inr [(739951, Winter, 24.3, 3.3, 84)]
   \<and> map_sum id fst (generate_forecast 739949 (\<lambda>n. 1 / 2) ''central'' 1)
     \<noteq> map_sum id fst (generate_forecast 739950 (\<lambda>n. 1 / 2) ''central'' 1)"
proof -
  let ?f = "\<lambda>s :: forecast_sample. (date s, season s, temperature_high_c s, rainfall_mm s,
                                    humidity_percent s)"
  have a: "map_sum id (\<lambda>(fc, g). map ?f fc)
             (generate_forecast 739949 (\<lambda>n. 1 / 2) ''central'' 1)
           = Inr [(739950, Fall, 25, 3, 80)]"
    by code_simp
  have b: "map_sum id (\<lambda>(fc, g). map ?f fc)
             (generate_forecast 739950 (\<lambda>n. 1 / 2) ''central'' 1)
           = Inr [(739951, Winter, 24.3, 3.3, 84)]"
    by code_simp
  have c: "map_sum id (\<lambda>(fc, g). map ?f fc) x = map_sum id (map ?f) (map_sum id fst x)"
    for x :: "py_error + forecast_sample list \<times> rng"
    by (cases x) (auto simp: split_def)
  have "map_sum id fst (generate_forecast 739949 (\<lambda>n. 1 / 2) ''central'' 1)
     \<noteq> map_sum id fst (generate_forecast 739950 (\<lambda>n. 1 / 2) ''central'' 1)"
  proof
    assume "map_sum id fst (generate_forecast 739949 (\<lambda>n. 1 / 2) ''central'' 1)
          = map_sum id fst (generate_forecast 739950 (\<lambda>n. 1 / 2) ''central'' 1)"
    then have "map_sum id (\<lambda>(fc, g). map ?f fc)
                 (generate_forecast 739949 (\<lambda>n. 1 / 2) ''central'' 1)
             = map_sum id (\<lambda>(fc, g). map ?f fc)
                 (generate_forecast 739950 (\<lambda>n. 1 / 2) ''central'' 1)"
      by (simp only: c)
    then show False
      unfolding a b by simp
  qed
  with a b show ?thesis by blast
qed

subsection \<open>The theorems at concrete inputs\<close>

theorem historical_conditions_normal_witness:
  "''south'' \<in> dom regions \<and>
   (\<exists>hist g'. generate_historical_data 739923 (\<lambda>n. 1 / 2) ''south'' None 30 = Inr (hist, g')
      \<and> (\<forall>s \<in> set hist. condition s \<in> {HeavyRain, LightRain, Hot, Cold, Clear}
            \<and> condition s \<noteq> DroughtConditions \<and> condition s \<noteq> FloodWarning))"
proof -
  have h: "''south'' \<in> dom regions" by (simp add: regions_def)
  show ?thesis
    using h historical_conditions_normal [OF h, of 739923 "\<lambda>n. 1 / 2" None 30] by simp
qed

theorem forecast_length_dates_witness:
  "''central'' \<in> dom regions \<and> (0::int) < 3 \<and>
   (\<exists>fc g'. generate_forecast 739923 (\<lambda>n. 1 / 2) ''central'' 3 = Inr (fc, g')
           \<and> length fc = nat 3
           \<and> (\<forall>i < nat 3. date (fc ! i) = 739923 + 1 + int i)
           \<and> sorted_wrt (<) (map date fc))"
proof -
  have h: "''central'' \<in> dom regions" by (simp add: regions_def)
  have d: "(0::int) < 3" by simp
  show ?thesis
    using h d forecast_length_dates [OF h d, of 739923 "\<lambda>n. 1 / 2"] by simp
qed

theorem forecast_deterministic_witness:
  "''north'' \<in> dom regions
   \<and> (\<exists>fc h h'. generate_forecast 739923 (\<lambda>n. 1 / 2) ''north'' 2 = Inr (fc, h)
            \<and> generate_forecast 739923 (\<lambda>n. if n < 18 then 1 / 2 else 0) ''north'' 2
                = Inr (fc, h'))"
proof -
  have h: "''north'' \<in> dom regions" by (simp add: regions_def)
  have a: "\<forall>n < 6 + 6 * nat 2. (\<lambda>n. if n < 18 then 1 / 2 else 0) n = (\<lambda>n. 1 / 2 :: real) n"
    by simp
  show ?thesis
    using h a forecast_deterministic [OF h a, of 739923] by blast
qed

theorem forecast_condition_ladder_witness:
  "regions ''central'' = Some (the (regions ''central''))
   \<and> (\<exists>fc g'. generate_forecast 739923 (\<lambda>n. 1 / 2) ''central'' 2 = Inr (fc, g')
     \<and> length fc = nat 2
     \<and> (\<forall>i < nat 2.
          \<exists>tt rt h.
            snd (forecast_loop (the (regions ''central'')) 739923 [1..int i]
                  (0, 0, advance 6 (\<lambda>n. 1 / 2))) = (tt, rt, h)
          \<and> (case day_trends (the (regions ''central''))
                  (seasons (get_current_season (739923 + (1 + int i)))) tt rt h of
                ((tt', tv, temperature, rt', rainfall), h3) \<Rightarrow>
                  condition (fc ! i) =
                    (if h3 0 < drought_probability (the (regions ''central''))
                     then DroughtConditions
                     else if h3 1 < flood_probability (the (regions ''central''))
                     then FloodWarning
                     else if rainfall > rainfall_variation (the (regions ''central''))
                     then HeavyRain
                     else if rainfall > rainfall_variation (the (regions ''central'')) / 2
                     then LightRain
                     else if temperature > base_temp (the (regions ''central''))
                                            + temp_variation (the (regions ''central''))
                     then Hot
                     else if temperature < base_temp (the (regions ''central''))
                                            - temp_variation (the (regions ''central''))
                     then Cold
                     else Clear))))"
proof -
  have h: "regions ''central'' = Some (the (regions ''central''))"
    by (simp add: regions_def)
  show ?thesis
    by (rule conjI [OF h forecast_condition_ladder [OF h]])
qed

section \<open>Properties of the impact classifier and of the weather query\<close>

lemma assess_agricultural_impact_Nil:
  "assess_agricultural_impact today current [] rgn = Inl ZeroDivisionError"
  by (simp add: assess_agricultural_impact_def)

text \<open>
  Claim C9. On the empty forecast the classifier does not return: its first statement
  divides by the length of the forecast and raises \<^verbatim>\<open>ZeroDivisionError\<close>, so there
  is no impact "unknown" and no empty recommendation list.
\<close>

theorem assess_empty_forecast_raises:
  "assess_agricultural_impact today current [] rgn = Inl ZeroDivisionError
   \<and> (\<forall>imp. assess_agricultural_impact today current [] rgn \<noteq> Inr imp)"
  by (simp add: assess_agricultural_impact_def)

lemma assess_nonempty_returns:
  "forecast \<noteq> [] \<Longrightarrow>
     \<exists>imp. assess_agricultural_impact today current forecast rgn = Inr imp
       \<and> overall_impact imp \<in> {''negative'', ''neutral'', ''positive''}"
  by (simp add: assess_agricultural_impact_def Let_def split_def)

lemma generate_forecast_nonpositive:
  assumes "rgn \<in> dom regions" and "days \<le> 0"
  shows "generate_forecast today g rgn days = Inr ([], advance 6 g)"
proof -
  from assms obtain p where p: "regions rgn = Some p" by auto
  from generate_current_weather_returns [OF p] obtain cw
    where cw: "generate_current_weather today g rgn = Inr (cw, advance 6 g)" by blast
  have "[1..days] = []" using assms(2) by simp
  then show ?thesis
    by (simp add: generate_forecast_def p cw)
qed

lemma process_input_unknown_region:
  assumes "rgn \<notin> dom regions" and "in_region q = Some rgn"
  shows "process_input sp today g q = (Inr (Error (''Unknown region: '' @ rgn)), g)"
  using assms by (simp add: process_input_def Let_def)

lemma process_input_nonpositive_days:
  assumes "rgn \<in> dom regions" and "in_region q = Some rgn"
    and "in_forecast_days q = Some days" and "days \<le> 0"
    and "in_include_historical q = None"
  shows "fst (process_input sp today g q) = Inl ZeroDivisionError"
proof -
  from assms obtain p where p: "regions rgn = Some p" by auto
  from generate_current_weather_returns [OF p] obtain cw
    where cw: "generate_current_weather today g rgn = Inr (cw, advance 6 g)" by blast
  have gf: "generate_forecast today (advance 6 g) rgn days = Inr ([], advance 6 (advance 6 g))"
    by (rule generate_forecast_nonpositive [OF assms(1,4)])
  show ?thesis
    using assms(1)
    by (simp add: process_input_def Let_def assms(2,3,5) cw gf assess_agricultural_impact_Nil)
qed

text \<open>
  Claim C4, as the code has it. A query for a region outside the configured set returns
  the error dictionary with the message "Unknown region" and draws nothing from the
  generator. For \<open>days \<le> 0\<close> the forecast operation signals nothing: it returns the
  empty sample sequence, after the six draws of the current weather.
\<close>

theorem weather_query_failures:
  "(rgn \<notin> dom regions \<longrightarrow> in_region q = Some rgn \<longrightarrow>
      process_input sp today g q = (Inr (Error (''Unknown region: '' @ rgn)), g))
   \<and> (rgn' \<in> dom regions \<longrightarrow> days \<le> 0 \<longrightarrow>
      generate_forecast today g rgn' days = Inr ([], advance 6 g))"
  using process_input_unknown_region generate_forecast_nonpositive by blast

theorem weather_query_failures_witness:
  "process_input (\<lambda>s. None) 739923 (\<lambda>n. 1 / 2)
      \<lparr>in_region = Some ''east'', in_forecast_days = Some 7,
       in_include_historical = None, in_specific_date = None\<rparr>
     = (Inr (Error ''Unknown region: east''), \<lambda>n. 1 / 2)
   \<and> generate_forecast 739923 (\<lambda>n. 1 / 2) ''south'' (- 3) = Inr ([], advance 6 (\<lambda>n. 1 / 2))"
proof -
  have a: "''east'' \<notin> dom regions" by (simp add: regions_def)
  have b: "''south'' \<in> dom regions" by (simp add: regions_def)
  show ?thesis
    using a b
      weather_query_failures [of "''east''"
        "\<lparr>in_region = Some ''east'', in_forecast_days = Some 7,
          in_include_historical = None, in_specific_date = None\<rparr>"
        "\<lambda>s. None" 739923 "\<lambda>n. 1 / 2" "''south''" "- 3"]
    by simp
qed

text \<open>
  Claim C4 as stated fails for \<open>days = 0\<close>: the forecast returns normally with no sample,
  and the query does not return an error dictionary.
\<close>

theorem weather_query_zero_days_counterexample:
  "generate_forecast 739923 (\<lambda>n. 1 / 2) ''central'' 0 = Inr ([], advance 6 (\<lambda>n. 1 / 2))
   \<and> fst (process_input (\<lambda>s. None) 739923 (\<lambda>n. 1 / 2)
            \<lparr>in_region = Some ''central'', in_forecast_days = Some 0,
             in_include_historical = None, in_specific_date = None\<rparr>)
       = Inl ZeroDivisionError
   \<and> (\<forall>m. fst (process_input (\<lambda>s. None) 739923 (\<lambda>n. 1 / 2)
            \<lparr>in_region = Some ''central'', in_forecast_days = Some 0,
             in_include_historical = None, in_specific_date = None\<rparr>)
       \<noteq> Inr (Error m))"
proof -
  have b: "''central'' \<in> dom regions" by (simp add: regions_def)
  have "fst (process_input (\<lambda>s. None) 739923 (\<lambda>n. 1 / 2)
            \<lparr>in_region = Some ''central'', in_forecast_days = Some 0,
             in_include_historical = None, in_specific_date = None\<rparr>)
       = Inl ZeroDivisionError"
    by (rule process_input_nonpositive_days [OF b, of _ 0]) simp_all
  then show ?thesis
    using generate_forecast_nonpositive [OF b, of 0 739923 "\<lambda>n. 1 / 2"] by simp
qed

section \<open>Properties of the soil analysis and of the market status\<close>

text \<open>
  Claim C7. For a parcel with soil pH strictly between 5.5 and 7.5 and soil moisture from
  20 to 40, the soil analysis reports both statuses "optimal" and no recommendation.
\<close>

theorem soil_optimal_no_recommendations:
  assumes "5.5 < soil_ph fd" and "soil_ph fd < 7.5"
    and "20 \<le> soil_moisture fd" and "soil_moisture fd \<le> 40"
  shows "ph_status (analyze_soil_data (Some (soil_ph fd)) (Some (soil_moisture fd)))
           = Some ''optimal''
       \<and> moisture_status (analyze_soil_data (Some (soil_ph fd)) (Some (soil_moisture fd)))
           = Some ''optimal''
       \<and> recommendations (analyze_soil_data (Some (soil_ph fd)) (Some (soil_moisture fd))) = []"
  using assms by (simp add: analyze_soil_data_def)

theorem soil_optimal_no_recommendations_witness:
  "ph_status (analyze_soil_data (Some 6.7) (Some 28.5)) = Some ''optimal''
   \<and> moisture_status (analyze_soil_data (Some 6.7) (Some 28.5)) = Some ''optimal''
   \<and> recommendations (analyze_soil_data (Some 6.7) (Some 28.5)) = []"
  using soil_optimal_no_recommendations [of example_farm]
  by (simp add: example_farm_def)

text \<open>
  Claim C8. At a fixed positive supply the status never moves towards "oversupplied" when
  the demand grows; it is "undersupplied" for a ratio above 1.2, "oversupplied" for a ratio
  below 0.8 and "balanced" otherwise; a supply that is not positive gives "undersupplied".
\<close>

theorem market_status_monotone:
  "(0 < supply \<longrightarrow> demand \<le> demand' \<longrightarrow>
      status_rank (determine_market_status demand supply)
        \<le> status_rank (determine_market_status demand' supply))
   \<and> (0 < supply \<longrightarrow>
        determine_market_status demand supply =
          (if demand / supply > 1.2 then ''undersupplied''
           else if demand / supply < 0.8 then ''oversupplied'' else ''balanced''))
   \<and> (supply0 \<le> 0 \<longrightarrow> determine_market_status demand0 supply0 = ''undersupplied'')"
proof (intro conjI impI)
  assume s: "0 < supply" and d: "demand \<le> demand'"
  define r where "r = demand / supply"
  define r' where "r' = demand' / supply"
  have le: "r \<le> r'"
    unfolding r_def r'_def using s d by (simp add: divide_right_mono)
  have "determine_market_status demand supply =
          (if r > 1.2 then ''undersupplied''
           else if r < 0.8 then ''oversupplied'' else ''balanced'')"
    and "determine_market_status demand' supply =
          (if r' > 1.2 then ''undersupplied''
           else if r' < 0.8 then ''oversupplied'' else ''balanced'')"
    using s by (simp_all add: determine_market_status_def r_def r'_def)
  then show "status_rank (determine_market_status demand supply)
        \<le> status_rank (determine_market_status demand' supply)"
    using le by (auto simp: status_rank_def)
next
  assume "0 < supply"
  then show "determine_market_status demand supply =
          (if demand / supply > 1.2 then ''undersupplied''
           else if demand / supply < 0.8 then ''oversupplied'' else ''balanced'')"
    by (simp add: determine_market_status_def)
next
  assume "supply0 \<le> 0"
  then show "determine_market_status demand0 supply0 = ''undersupplied''"
    by (simp add: determine_market_status_def)
qed

theorem market_status_monotone_witness:
  "status_rank (determine_market_status 70 100) \<le> status_rank (determine_market_status 150 100)
   \<and> determine_market_status 70 100 = ''oversupplied''
   \<and> determine_market_status 150 0 = ''undersupplied''"
proof -
  from market_status_monotone [of 100 70 150 0 150]
  have a: "status_rank (determine_market_status 70 100)
             \<le> status_rank (determine_market_status 150 100)"
    and b: "determine_market_status 70 100 = ''oversupplied''"
    and c: "determine_market_status 150 0 = ''undersupplied''"
    by auto
  show ?thesis by (intro conjI a b c)
qed

section \<open>Properties of the orchestrator\<close>

lemma get_or_simps [simp]: "get_or (Some v) d = v" "get_or None d = d"
  by (simp_all add: get_or_def)

lemma nonneg_focus_rec: "0 \<le> s \<Longrightarrow> nonneg_rec (focus_rec f a s c)"
  by (simp add: nonneg_rec_def focus_rec_def)

lemma nonneg_key_rec: "0 \<le> s \<Longrightarrow> nonneg_rec (key_rec k v a s e c)"
  by (simp add: nonneg_rec_def key_rec_def)

lemma nonneg_short_term_recs: "r \<in> set (short_term_recs fc) \<Longrightarrow> nonneg_rec r"
  by (auto simp: short_term_recs_def nonneg_focus_rec split: if_splits)

lemma nonneg_seasonal_recs: "r \<in> set (seasonal_recs s) \<Longrightarrow> nonneg_rec r"
  by (cases s) (auto simp: seasonal_recs_def nonneg_focus_rec)

lemma nonneg_water_recs: "r \<in> set (water_recs fc) \<Longrightarrow> nonneg_rec r"
  by (auto simp: water_recs_def Let_def nonneg_focus_rec split: if_splits)

lemma nonneg_recommend_crops: "r \<in> set (recommend_crops fd goal pref) \<Longrightarrow> nonneg_rec r"
  by (auto simp: recommend_crops_def nonneg_key_rec split: if_splits)

lemma nonneg_recommend_resource_optimization:
  "r \<in> set (recommend_resource_optimization fd pref) \<Longrightarrow> nonneg_rec r"
  by (auto simp: recommend_resource_optimization_def nonneg_key_rec split: if_splits)

lemma nonneg_recommend_sustainable_practices:
  "r \<in> set (recommend_sustainable_practices fd pref) \<Longrightarrow> nonneg_rec r"
  by (auto simp: recommend_sustainable_practices_def nonneg_key_rec split: if_splits)

lemma generate_forecast_returns:
  assumes "regions rgn = Some p"
  shows "\<exists>fc g'. generate_forecast today g rgn days = Inr (fc, g') \<and> length fc = nat days"
proof -
  from generate_current_weather_returns [OF assms] obtain cw
    where cw: "generate_current_weather today g rgn = Inr (cw, advance 6 g)" by blast
  show ?thesis
    by (simp add: generate_forecast_def assms cw split_def Let_def length_forecast_loop)
qed

lemma weather_generate_recommendations_returns:
  assumes "rgn \<in> dom regions"
  shows "\<exists>groups g'. weather_generate_recommendations today g rgn = (Inr (Success groups), g')
           \<and> (\<forall>gr \<in> set groups. \<forall>r \<in> set (recommendations gr). nonneg_rec r)"
proof -
  from assms obtain p where p: "regions rgn = Some p" by auto
  from generate_current_weather_returns [OF p] obtain cw
    where cw: "generate_current_weather today g rgn = Inr (cw, advance 6 g)" by blast
  from generate_forecast_returns [OF p, of today "advance 6 g" 14] obtain fc g2
    where fc: "generate_forecast today (advance 6 g) rgn 14 = Inr (fc, g2)"
      and len: "length fc = 14" by auto
  have "fc \<noteq> []" using len by auto
  from assess_nonempty_returns [OF this] obtain imp
    where imp: "assess_agricultural_impact today cw fc rgn = Inr imp" by blast
  have st: "r \<in> set (take 3 (short_term_recs fc)) \<Longrightarrow> nonneg_rec r" for r
    using nonneg_short_term_recs by (meson in_set_takeD)
  show ?thesis
    using assms st nonneg_seasonal_recs nonneg_water_recs
    by (auto simp: weather_generate_recommendations_def cw fc imp Let_def)
qed

lemma farmer_generate_recommendations_returns:
  assumes "get_farm_data table fid = One_row fd"
  shows "\<exists>groups. farmer_generate_recommendations table fid goal pref = Inr (Success groups)
           \<and> (\<forall>gr \<in> set groups. \<forall>r \<in> set (recommendations gr). nonneg_rec r)"
  using nonneg_recommend_crops nonneg_recommend_resource_optimization
    nonneg_recommend_sustainable_practices
  by (auto simp: farmer_generate_recommendations_def assms Let_def)

lemma extract_recs_Success:
  "extract_recs pref cat (Success groups) w
     = Inr (map (score_rec pref cat w) (concat (map recommendations groups)))"
  by (simp add: extract_recs_def map_concat comp_def)

lemma hp_sustainability_impact_score_rec:
  "hp_sustainability_impact (score_rec pref cat w r) = get_or (sustainability_impact r) 0"
  by (simp add: score_rec_def Let_def)

lemma score_score_rec:
  "score (score_rec pref cat w r) =
     (get_or (sustainability_impact r) 0 * (real_of_int pref / 10)
      + get_or (economic_impact r) 0 * (1 - real_of_int pref / 10))
     * get_or (confidence r) 0.5 * w"
  by (simp add: score_rec_def Let_def)

lemma pipeline_returns:
  assumes "get_farm_data table fid = One_row fd" and "rgn \<in> dom regions"
  shows "\<exists>fgs wgs g'.
      (\<forall>gr \<in> set fgs. \<forall>r \<in> set (recommendations gr). nonneg_rec r)
    \<and> (\<forall>gr \<in> set wgs. \<forall>r \<in> set (recommendations gr). nonneg_rec r)
    \<and> generate_farm_recommendations table market today g fid rgn goal pref =
        (Inr (Success
           \<lparr>out_farm_data = fd,
            farming_recommendations = Success fgs,
            market_recommendations = Success (map of_market_group market),
            weather_recommendations = Success wgs,
            high_priority_actions =
              take 5 (sort_by_score (gathered pref fgs (map of_market_group market) wgs)),
            out_sustainability_summary =
              summarise (sustainability_score fd)
                (take 5 (sort_by_score (gathered pref fgs (map of_market_group market) wgs)))\<rparr>),
         g')"
proof -
  from farmer_generate_recommendations_returns [OF assms(1), of goal pref] obtain fgs
    where f: "farmer_generate_recommendations table fid goal pref = Inr (Success fgs)"
      and fn: "\<forall>gr \<in> set fgs. \<forall>r \<in> set (recommendations gr). nonneg_rec r" by blast
  from weather_generate_recommendations_returns [OF assms(2), of today g] obtain wgs g'
    where w: "weather_generate_recommendations today g rgn = (Inr (Success wgs), g')"
      and wn: "\<forall>gr \<in> set wgs. \<forall>r \<in> set (recommendations gr). nonneg_rec r" by blast
  have "generate_farm_recommendations table market today g fid rgn goal pref =
        (Inr (Success
           \<lparr>out_farm_data = fd,
            farming_recommendations = Success fgs,
            market_recommendations = Success (map of_market_group market),
            weather_recommendations = Success wgs,
            high_priority_actions =
              take 5 (sort_by_score (gathered pref fgs (map of_market_group market) wgs)),
            out_sustainability_summary =
              summarise (sustainability_score fd)
                (take 5 (sort_by_score (gathered pref fgs (map of_market_group market) wgs)))\<rparr>),
         g')"
    by (simp add: generate_farm_recommendations_def assms(1) f w extract_recs_Success
        gathered_def Let_def)
  with fn wn show ?thesis by blast
qed

text \<open>
  Where the orchestrator returns no recommendations: an unknown parcel gives the error
  dictionary; an unknown region makes the weather station return its error dictionary,
  over which \<^verbatim>\<open>extract_recs\<close> fails.
\<close>

lemma orchestrator_unknown_region:
  assumes "get_farm_data table fid = One_row fd" and "rgn \<notin> dom regions"
  shows "generate_farm_recommendations table market today g fid rgn goal pref = (Inl TypeError, g)"
proof -
  from farmer_generate_recommendations_returns [OF assms(1), of goal pref] obtain fgs
    where f: "farmer_generate_recommendations table fid goal pref = Inr (Success fgs)" by blast
  have w: "weather_generate_recommendations today g rgn
             = (Inr (Error (''Unknown region: '' @ rgn)), g)"
    using assms(2) by (simp add: weather_generate_recommendations_def)
  show ?thesis
    by (simp add: generate_farm_recommendations_def assms(1) f w extract_recs_Success
        extract_recs_def Let_def)
qed

lemma orchestrator_unknown_parcel:
  assumes "fid \<noteq> 0" and "\<forall>f \<in> set table. farm_id f \<noteq> fid"
  shows "generate_farm_recommendations table market today g fid rgn goal pref
           = (Inr (Error (''Farm ID '' @ str_int fid @ '' not found'')), g)"
proof -
  have "find (\<lambda>f. farm_id f = fid) table = None"
    using assms(2) by (simp add: find_None_iff)
  then show ?thesis
    using assms(1) by (simp add: generate_farm_recommendations_def get_farm_data_def Let_def)
qed

lemma gathered_nonneg:
  assumes "\<forall>gr \<in> set fgs. \<forall>r \<in> set (recommendations gr). nonneg_rec r"
    and "\<forall>gr \<in> set wgs. \<forall>r \<in> set (recommendations gr). nonneg_rec r"
    and "x \<in> set (gathered pref fgs (map of_market_group market) wgs)"
  shows "0 \<le> hp_sustainability_impact x"
  using assms
  by (auto simp: gathered_def hp_sustainability_impact_score_rec nonneg_rec_def
      of_market_group_def of_market_rec_def)

lemma sum_list_nonneg_real:
  "(\<And>x. x \<in> set xs \<Longrightarrow> (0::real) \<le> f x) \<Longrightarrow> 0 \<le> sum_list (map f xs)"
  by (induction xs) auto

lemma set_sort_by_score: "set (sort_by_score xs) = set xs"
  by (simp add: sort_by_score_def)

lemma sort_by_score_descending:
  "sorted_wrt (\<lambda>a b. score b \<le> score a) (sort_by_score xs)"
proof -
  have "sorted (map (\<lambda>x. - score x) (sort_by_score xs))"
    by (simp add: sort_by_score_def)
  then show ?thesis
    by (simp add: sorted_map)
qed

lemma sort_by_score_stable:
  "filter (\<lambda>x. score x = k) (sort_by_score xs) = filter (\<lambda>x. score x = k) xs"
proof -
  have "filter (\<lambda>x. - score x = - k) (sort_key (\<lambda>x. - score x) xs)
          = filter (\<lambda>x. - score x = - k) xs"
    by (rule sort_key_stable)
  then show ?thesis by (simp add: sort_by_score_def)
qed

lemma mset_sort_by_score: "mset (sort_by_score xs) = mset xs"
  by (simp add: sort_by_score_def)

lemma map_score_gathered:
  "map score (gathered pref fgs mgs wgs) =
     map (weighted_score pref 1.0) (concat (map recommendations fgs))
     @ map (weighted_score pref 0.9) (concat (map recommendations mgs))
     @ map (weighted_score pref 0.8) (concat (map recommendations wgs))"
  by (simp add: gathered_def weighted_score_def score_score_rec comp_def)

lemma weighted_score_in_range:
  assumes "1 \<le> pref" and "pref \<le> 10"
  shows "weighted_score pref w r =
     spec_score pref w (get_or (sustainability_impact r) 0) (get_or (economic_impact r) 0)
       (get_or (confidence r) 0.5)"
proof -
  have "clamp_preference pref = pref"
    using assms by (simp add: clamp_preference_def)
  then show ?thesis
    by (simp add: weighted_score_def spec_score_def Let_def)
qed

text \<open>
  Claim C1, as the code has it. For a parcel that the repository returns and a configured
  region the orchestrator returns; every item gathered from the three agents is scored
  \<open>(sustainability_impact * w_s + economic_impact * w_e) * confidence * weight\<close> with
  \<open>w_s = preference / 10\<close>, \<open>w_e = 1 - w_s\<close> for the preference as passed (no clamping;
  the formula with the clamped preference is the same for a preference from 1 to 10), an
  absent entry counting as 0, 0 and 0.5, and the weights 1.0 for farming, 0.9 for market
  and 0.8 for weather items; the high-priority actions are the first five items of the
  stable descending sort by score: a permutation of the gathered items, with scores not
  increasing, in which items of equal score keep their order of emission.
\<close>

theorem high_priority_actions_ranked:
  assumes "get_farm_data table fid = One_row fd" and "rgn \<in> dom regions"
  shows "\<exists>res g' fgs wgs items srt.
      generate_farm_recommendations table market today g fid rgn goal pref
        = (Inr (Success res), g')
    \<and> farming_recommendations res = Success fgs
    \<and> market_recommendations res = Success (map of_market_group market)
    \<and> weather_recommendations res = Success wgs
    \<and> items = gathered pref fgs (map of_market_group market) wgs
    \<and> map score items =
        map (weighted_score pref 1.0) (concat (map recommendations fgs))
        @ map (weighted_score pref 0.9)
            (concat (map recommendations (map of_market_group market)))
        @ map (weighted_score pref 0.8) (concat (map recommendations wgs))
    \<and> (1 \<le> pref \<and> pref \<le> 10 \<longrightarrow>
         (\<forall>w r. weighted_score pref w r =
            spec_score pref w (get_or (sustainability_impact r) 0)
              (get_or (economic_impact r) 0) (get_or (confidence r) 0.5)))
    \<and> mset srt = mset items
    \<and> sorted_wrt (\<lambda>a b. score b \<le> score a) srt
    \<and> (\<forall>k. filter (\<lambda>x. score x = k) srt = filter (\<lambda>x. score x = k) items)
    \<and> high_priority_actions res = take 5 srt"
proof -
  from pipeline_returns [OF assms, of market today g goal pref] obtain fgs wgs g'
    where r: "generate_farm_recommendations table market today g fid rgn goal pref =
        (Inr (Success
           \<lparr>out_farm_data = fd,
            farming_recommendations = Success fgs,
            market_recommendations = Success (map of_market_group market),
            weather_recommendations = Success wgs,
            high_priority_actions =
              take 5 (sort_by_score (gathered pref fgs (map of_market_group market) wgs)),
            out_sustainability_summary =
              summarise (sustainability_score fd)
                (take 5 (sort_by_score (gathered pref fgs (map of_market_group market) wgs)))\<rparr>),
         g')"
    by blast
  define items where "items = gathered pref fgs (map of_market_group market) wgs"
  define srt where "srt = sort_by_score items"
  have 1: "map score items =
        map (weighted_score pref 1.0) (concat (map recommendations fgs))
        @ map (weighted_score pref 0.9)
            (concat (map recommendations (map of_market_group market)))
        @ map (weighted_score pref 0.8) (concat (map recommendations wgs))"
    unfolding items_def by (rule map_score_gathered)
  have 2: "1 \<le> pref \<and> pref \<le> 10 \<longrightarrow>
         (\<forall>w r. weighted_score pref w r =
            spec_score pref w (get_or (sustainability_impact r) 0)
              (get_or (economic_impact r) 0) (get_or (confidence r) 0.5))"
    using weighted_score_in_range by blast
  have 3: "mset srt = mset items"
    unfolding srt_def by (rule mset_sort_by_score)
  have 4: "sorted_wrt (\<lambda>a b. score b \<le> score a) srt"
    unfolding srt_def by (rule sort_by_score_descending)
  have 5: "\<forall>k. filter (\<lambda>x. score x = k) srt = filter (\<lambda>x. score x = k) items"
    unfolding srt_def by (simp add: sort_by_score_stable)
  show ?thesis
    apply (rule exI [of _ "\<lparr>out_farm_data = fd,
            farming_recommendations = Success fgs,
            market_recommendations = Success (map of_market_group market),
            weather_recommendations = Success wgs,
            high_priority_actions = take 5 srt,
            out_sustainability_summary = summarise (sustainability_score fd) (take 5 srt)\<rparr>"])
    apply (rule exI [of _ g'])
    apply (rule exI [of _ fgs])
    apply (rule exI [of _ wgs])
    apply (rule exI [of _ items])
    apply (rule exI [of _ srt])
    using r 1 2 3 4 5
    apply (simp add: items_def srt_def)
    done
qed

text \<open>
  Claim C5. For a parcel whose sustainability score is in the range from 0 to 100, the
  summary has the potential improvement 0.2 times the sum of the sustainability impacts of
  the (at most five) high-priority actions, the potential score the smaller of 100 and
  current score plus improvement, which lies between the current score and 100, and the
  improvement percentage \<open>improvement / current * 100\<close>, or 0 for a current score of 0.
\<close>

theorem sustainability_summary_bounds:
  assumes "get_farm_data table fid = One_row fd" and "rgn \<in> dom regions"
    and "0 \<le> sustainability_score fd" and "sustainability_score fd \<le> 100"
  shows "\<exists>res g'.
      generate_farm_recommendations table market today g fid rgn goal pref
        = (Inr (Success res), g')
    \<and> length (high_priority_actions res) \<le> 5
    \<and> current_score (out_sustainability_summary res) = sustainability_score fd
    \<and> potential_score (out_sustainability_summary res) =
        min 100 (sustainability_score fd
                 + 0.2 * sum_list (map hp_sustainability_impact (high_priority_actions res)))
    \<and> sustainability_score fd \<le> potential_score (out_sustainability_summary res)
    \<and> potential_score (out_sustainability_summary res) \<le> 100
    \<and> improvement_percentage (out_sustainability_summary res) =
        (if sustainability_score fd = 0 then 0
         else 0.2 * sum_list (map hp_sustainability_impact (high_priority_actions res))
              / sustainability_score fd * 100)"
proof -
  from pipeline_returns [OF assms(1,2), of market today g goal pref] obtain fgs wgs g'
    where fn: "\<forall>gr \<in> set fgs. \<forall>r \<in> set (recommendations gr). nonneg_rec r"
      and wn: "\<forall>gr \<in> set wgs. \<forall>r \<in> set (recommendations gr). nonneg_rec r"
      and r: "generate_farm_recommendations table market today g fid rgn goal pref =
        (Inr (Success
           \<lparr>out_farm_data = fd,
            farming_recommendations = Success fgs,
            market_recommendations = Success (map of_market_group market),
            weather_recommendations = Success wgs,
            high_priority_actions =
              take 5 (sort_by_score (gathered pref fgs (map of_market_group market) wgs)),
            out_sustainability_summary =
              summarise (sustainability_score fd)
                (take 5 (sort_by_score (gathered pref fgs (map of_market_group market) wgs)))\<rparr>),
         g')"
    by blast
  define top5 where
    "top5 = take 5 (sort_by_score (gathered pref fgs (map of_market_group market) wgs))"
  define imp where "imp = sum_list (map hp_sustainability_impact top5)"
  have "0 \<le> hp_sustainability_impact x" if "x \<in> set top5" for x
  proof -
    have "x \<in> set (gathered pref fgs (map of_market_group market) wgs)"
      using that unfolding top5_def by (metis in_set_takeD set_sort_by_score)
    then show ?thesis by (rule gathered_nonneg [OF fn wn])
  qed
  then have imp0: "0 \<le> imp"
    unfolding imp_def by (rule sum_list_nonneg_real)
  have len: "length top5 \<le> 5" by (simp add: top5_def)
  have s: "summarise (sustainability_score fd) top5 =
        \<lparr>current_score = sustainability_score fd,
         potential_score = min 100 (sustainability_score fd + imp * 0.2),
         improvement_percentage =
           (if sustainability_score fd > 0
            then (imp * 0.2 / sustainability_score fd) * 100 else 0)\<rparr>"
    by (simp add: summarise_def imp_def Let_def)
  show ?thesis
    apply (rule exI [of _ "\<lparr>out_farm_data = fd,
            farming_recommendations = Success fgs,
            market_recommendations = Success (map of_market_group market),
            weather_recommendations = Success wgs,
            high_priority_actions = top5,
            out_sustainability_summary = summarise (sustainability_score fd) top5\<rparr>"])
    apply (rule exI [of _ g'])
    using r len imp0 assms(3,4)
    apply (simp add: top5_def [symmetric] s imp_def [symmetric])
    done
qed

theorem sustainability_summary_bounds_witness:
  "\<exists>res g'.
      generate_farm_recommendations [example_farm] example_market 739923 (\<lambda>n. 1 / 2)
          1 ''central'' ''balance'' 7
        = (Inr (Success res), g')
    \<and> length (high_priority_actions res) \<le> 5
    \<and> current_score (out_sustainability_summary res) = 45
    \<and> potential_score (out_sustainability_summary res) =
        min 100 (45 + 0.2 * sum_list (map hp_sustainability_impact (high_priority_actions res)))
    \<and> 45 \<le> potential_score (out_sustainability_summary res)
    \<and> potential_score (out_sustainability_summary res) \<le> 100
    \<and> improvement_percentage (out_sustainability_summary res) =
        0.2 * sum_list (map hp_sustainability_impact (high_priority_actions res)) / 45 * 100"
proof -
  have h1: "get_farm_data [example_farm] 1 = One_row example_farm"
    by (simp add: get_farm_data_def example_farm_def)
  have h2: "''central'' \<in> dom regions" by (simp add: regions_def)
  have s: "sustainability_score example_farm = 45" by (simp add: example_farm_def)
  have h3: "0 \<le> sustainability_score example_farm"
    and h4: "sustainability_score example_farm \<le> 100"
    by (simp_all add: s)
  show ?thesis
    using sustainability_summary_bounds
      [OF h1 h2 h3 h4, of example_market 739923 "\<lambda>n. 1 / 2" "''balance''" 7]
    unfolding s by simp
qed

theorem high_priority_actions_ranked_witness:
  "\<exists>res g' fgs wgs items srt.
      generate_farm_recommendations [example_farm] example_market 739923 (\<lambda>n. 1 / 2)
          1 ''central'' ''balance'' 7
        = (Inr (Success res), g')
    \<and> farming_recommendations res = Success fgs
    \<and> market_recommendations res = Success (map of_market_group example_market)
    \<and> weather_recommendations res = Success wgs
    \<and> items = gathered 7 fgs (map of_market_group example_market) wgs
    \<and> map score items =
        map (weighted_score 7 1.0) (concat (map recommendations fgs))
        @ map (weighted_score 7 0.9)
            (concat (map recommendations (map of_market_group example_market)))
        @ map (weighted_score 7 0.8) (concat (map recommendations wgs))
    \<and> (\<forall>w r. weighted_score 7 w r =
            spec_score 7 w (get_or (sustainability_impact r) 0)
              (get_or (economic_impact r) 0) (get_or (confidence r) 0.5))
    \<and> mset srt = mset items
    \<and> sorted_wrt (\<lambda>a b. score b \<le> score a) srt
    \<and> (\<forall>k. filter (\<lambda>x. score x = k) srt = filter (\<lambda>x. score x = k) items)
    \<and> high_priority_actions res = take 5 srt"
proof -
  have h1: "get_farm_data [example_farm] 1 = One_row example_farm"
    by (simp add: get_farm_data_def example_farm_def)
  have h2: "''central'' \<in> dom regions" by (simp add: regions_def)
  show ?thesis
    using high_priority_actions_ranked
      [OF h1 h2, of example_market 739923 "\<lambda>n. 1 / 2" "''balance''" 7]
    by simp
qed

text \<open>
  Claim C1 as stated fails outside the range: at preference 15 the item "Soil Testing",
  which every farm receives, scores 1.755 with the code and 1.62 with the clamped
  preference.
\<close>

theorem score_not_clamped_counterexample:
  "key_rec ''practice'' ''Soil Testing''
      ''Conduct regular soil testing to optimize inputs and reduce waste'' 1.8 1.5 0.9
     \<in> set (recommend_sustainable_practices example_farm 15)
   \<and> score (score_rec 15 ''Farming Practices'' 1.0
        (key_rec ''practice'' ''Soil Testing''
           ''Conduct regular soil testing to optimize inputs and reduce waste'' 1.8 1.5 0.9))
       = 1.755
   \<and> spec_score 15 1.0 1.8 1.5 0.9 = 1.62"
  by (simp add: recommend_sustainable_practices_def score_rec_def key_rec_def spec_score_def
      clamp_preference_def Let_def)

section \<open>Example runs\<close>

text \<open>
  The model evaluated on 2026-11-03 (ordinal 739923), with generators that return the same
  value at every draw.
\<close>

lemma forecast_example_clear:
  "map_sum id (\<lambda>(fc, g). map (\<lambda>s. (date s, day s, season s, temperature_high_c s,
                 temperature_low_c s, rainfall_mm s, humidity_percent s, wind_speed_kph s,
                 condition s)) fc)
     (generate_forecast 739923 (\<lambda>n. 1 / 2) ''central'' 2)
   = Inr [(739924, 1, Fall, 25, 19, 3, 80, 12.5, Clear),
          (739925, 2, Fall, 25, 19, 3, 80, 12.5, Clear)]"
  by code_simp

lemma forecast_example_drought:
  "map_sum id (\<lambda>(fc, g). map (\<lambda>s. (date s, condition s, rainfall_mm s)) fc)
     (generate_forecast 739923 (\<lambda>n. 1 / 20) ''south'' 2)
   = Inr [(739924, DroughtConditions, 0), (739925, DroughtConditions, 0)]"
  by code_simp

lemma historical_example:
  "map_sum id (\<lambda>(h, g). map (\<lambda>s. (date s, season s, condition s)) h)
     (generate_historical_data 739923 (\<lambda>n. 9 / 10) ''north'' None 3)
   = Inr [(739922, Fall, HeavyRain), (739921, Fall, HeavyRain), (739920, Fall, HeavyRain)]"
  by code_simp

lemma strftime_example: "strftime 739923 = ''2026-11-03''"
  by code_simp

end
